theory Spec2Isabelle
  imports Main "HOL-Library.Char_ord" "HOL-Library.List_Lexorder" "HOL-Library.Sublist"
begin

section \<open>Python values used by \<^verbatim>\<open>wheel_builder.py\<close>\<close>

text \<open>
  Strings are lists of characters with code points below 256, ordered as Python
  orders \<^verbatim>\<open>str\<close> values: character by character, a proper prefix first.
  Every \<^verbatim>\<open>raise\<close>, failed \<^verbatim>\<open>assert\<close> and failing builtin of the
  source is a value of \<open>error\<close>; a function that can raise returns \<open>error + 'a\<close>.
\<close>

datatype error =
    AssertionError string
  | AttributeError
  | IndexError
  | TypeError

definition newline :: string where
  "newline = [CHR 0x0A]"

text \<open>Truthiness of an \<^verbatim>\<open>Optional[str]\<close>: \<^verbatim>\<open>None\<close> and the empty string are false.\<close>

definition truthy :: "string option \<Rightarrow> bool" where
  "truthy s = (case s of None \<Rightarrow> False | Some t \<Rightarrow> t \<noteq> [])"

text \<open>\<^verbatim>\<open>str.split(sep)\<close> for a one-character separator: never returns an empty list.\<close>

fun split_on :: "char \<Rightarrow> string \<Rightarrow> string list" where
  "split_on c [] = [[]]"
| "split_on c (x # xs) =
     (if x = c then [] # split_on c xs
      else (case split_on c xs of [] \<Rightarrow> [[x]] | p # ps \<Rightarrow> (x # p) # ps))"

text \<open>\<^verbatim>\<open>sep.join(parts)\<close>.\<close>

fun join :: "string \<Rightarrow> string list \<Rightarrow> string" where
  "join sep [] = []"
| "join sep [p] = p"
| "join sep (p # q # ps) = p @ sep @ join sep (q # ps)"

text \<open>
  \<^verbatim>\<open>xs[i] = v\<close> on a Python list: a negative index counts from the end, an index
  out of range raises \<^verbatim>\<open>IndexError\<close>.
\<close>

definition list_setitem :: "'a list \<Rightarrow> int \<Rightarrow> 'a \<Rightarrow> error + 'a list" where
  "list_setitem xs i v =
     (let n = int (length xs); j = (if i < 0 then i + n else i)
      in if 0 \<le> j \<and> j < n then Inr (xs[nat j := v]) else Inl IndexError)"

text \<open>
  \<^verbatim>\<open>os.path.join(a, b)\<close> and \<^verbatim>\<open>os.path.basename(p)\<close> as \<^verbatim>\<open>posixpath\<close> defines
  them for two arguments.
\<close>

definition path_join :: "string \<Rightarrow> string \<Rightarrow> string" where
  "path_join a b =
     (if b \<noteq> [] \<and> hd b = CHR ''/'' then b
      else if a = [] \<or> last a = CHR ''/'' then a @ b
      else a @ ''/'' @ b)"

definition basename :: "string \<Rightarrow> string" where
  "basename p = rev (takeWhile (\<lambda>c. c \<noteq> CHR ''/'') (rev p))"

section \<open>\<^verbatim>\<open>replace_python_tag\<close>\<close>

text \<open>
  \<^verbatim>\<open>
  def replace_python_tag(wheelname, new_tag):
      parts = wheelname.split('-')
      parts[-3] = new_tag
      return '-'.join(parts)
  \<close>
\<close>

definition replace_python_tag :: "string \<Rightarrow> string \<Rightarrow> error + string" where
  "replace_python_tag wheelname new_tag =
     (let parts = split_on CHR ''-'' wheelname
      in case list_setitem parts (- 3) new_tag of
           Inl e \<Rightarrow> Inl e
         | Inr parts' \<Rightarrow> Inr (join ''-'' parts'))"


section \<open>Regular expressions, as \<^verbatim>\<open>re.search\<close> decides them\<close>

text \<open>
  Whether \<^verbatim>\<open>pattern.search(s)\<close> finds a match does not depend on the order in
  which Python's matcher tries alternatives, nor on capture groups: it is true exactly
  when some slice of \<open>s\<close> is in the language of the pattern. The matcher below decides
  membership by taking the derivative of the expression by each character in turn.
\<close>

datatype rexp =
    Never
  | Empty
  | Class "char \<Rightarrow> bool"
  | Cat rexp rexp
  | Or rexp rexp
  | Many rexp

fun nullable :: "rexp \<Rightarrow> bool" where
  "nullable Never = False"
| "nullable Empty = True"
| "nullable (Class p) = False"
| "nullable (Cat r s) = (nullable r \<and> nullable s)"
| "nullable (Or r s) = (nullable r \<or> nullable s)"
| "nullable (Many r) = True"

fun deriv :: "char \<Rightarrow> rexp \<Rightarrow> rexp" where
  "deriv c Never = Never"
| "deriv c Empty = Never"
| "deriv c (Class p) = (if p c then Empty else Never)"
| "deriv c (Cat r s) =
     (if nullable r then Or (Cat (deriv c r) s) (deriv c s) else Cat (deriv c r) s)"
| "deriv c (Or r s) = Or (deriv c r) (deriv c s)"
| "deriv c (Many r) = Cat (deriv c r) (Many r)"

fun matches :: "rexp \<Rightarrow> string \<Rightarrow> bool" where
  "matches r [] = nullable r"
| "matches r (c # s) = matches (deriv c r) s"

text \<open>
  The words an expression stands for; the matcher is proved against this reading below.
\<close>

fun lang :: "rexp \<Rightarrow> string set" where
  "lang Never = {}"
| "lang Empty = {[]}"
| "lang (Class p) = {[c] | c. p c}"
| "lang (Cat r s) = {u @ v | u v. u \<in> lang r \<and> v \<in> lang s}"
| "lang (Or r s) = lang r \<union> lang s"
| "lang (Many r) = {concat ws | ws. set ws \<subseteq> lang r}"

text \<open>The regex operator \<^verbatim>\<open>+\<close>: one or more repetitions.\<close>

definition one_or_more :: "rexp \<Rightarrow> rexp" where
  "one_or_more r = Cat r (Many r)"

text \<open>\<^verbatim>\<open>bool(pattern.search(s))\<close>: some slice of \<open>s\<close> matches.\<close>

definition re_search :: "rexp \<Rightarrow> string \<Rightarrow> bool" where
  "re_search r s = list_ex (\<lambda>t. list_ex (matches r) (prefixes t)) (suffixes s)"

section \<open>\<^verbatim>\<open>_contains_egg_info\<close>\<close>

text \<open>
  \<^verbatim>\<open>
  def _contains_egg_info(
          s, _egg_info_re=re.compile(r'([a-z0-9_.]+)-([a-z0-9_.!+-]+)', re.I)):
      return bool(_egg_info_re.search(s))
  \<close>
  Under \<^verbatim>\<open>re.I\<close> the range \<^verbatim>\<open>a-z\<close> also matches \<^verbatim>\<open>A-Z\<close> (and, among code points
  below 256, nothing else).
\<close>

definition in_range :: "char \<Rightarrow> char \<Rightarrow> char \<Rightarrow> bool" where
  "in_range lo hi c = (lo \<le> c \<and> c \<le> hi)"

definition egg_name_char :: "char \<Rightarrow> bool" where
  "egg_name_char c =
     (in_range CHR ''a'' CHR ''z'' c \<or> in_range CHR ''A'' CHR ''Z'' c \<or>
      in_range CHR ''0'' CHR ''9'' c \<or> c = CHR ''_'' \<or> c = CHR ''.'')"

definition egg_version_char :: "char \<Rightarrow> bool" where
  "egg_version_char c =
     (in_range CHR ''a'' CHR ''z'' c \<or> in_range CHR ''A'' CHR ''Z'' c \<or>
      in_range CHR ''0'' CHR ''9'' c \<or> c = CHR ''_'' \<or> c = CHR ''.'' \<or>
      c = CHR ''!'' \<or> c = CHR ''+'' \<or> c = CHR ''-'')"

definition egg_info_re :: rexp where
  "egg_info_re =
     Cat (one_or_more (Class egg_name_char))
       (Cat (Class (\<lambda>c. c = CHR ''-'')) (one_or_more (Class egg_version_char)))"

definition contains_egg_info :: "string \<Rightarrow> bool" where
  "contains_egg_info s = re_search egg_info_re s"

section \<open>The data model\<close>

text \<open>
  A \<^verbatim>\<open>Link\<close> and an \<^verbatim>\<open>InstallRequirement\<close> are classes defined outside this
  module; the records hold the attributes and properties that \<^verbatim>\<open>wheel_builder.py\<close>
  reads, each as a field. \<open>splitext\<close> is the result of \<^verbatim>\<open>link.splitext()\<close>.
  A batch is a list of distinct requirement objects, so a requirement is a value here.
\<close>

record link =
  url :: string
  scheme :: string
  is_vcs :: bool
  splitext :: "string \<times> string"
  link_is_wheel :: bool
  file_path :: string

record req =
  name :: string
  constraint :: bool
  is_wheel :: bool
  editable :: bool
  source_dir :: "string option"
  link :: "link option"
  use_pep517 :: bool
  setup_py_path :: string
  unpacked_source_directory :: string
  metadata_directory :: "string option"

text \<open>
  What the run leaves behind besides its return value: the records handed to
  \<^verbatim>\<open>logger\<close> (level, format string, arguments) and the external commands run
  (arguments, working directory). The two warnings of
  \<^verbatim>\<open>get_legacy_build_wheel_path\<close> are formatted by the source itself; they carry
  the requirement name, the sorted names for the second, and the text of
  \<^verbatim>\<open>format_command_result\<close> appended to the message.
\<close>

datatype level = DEBUG | INFO | WARNING | ERROR

datatype event =
    Log level string "string list"
  | Legacy_created_no_files string string
  | Legacy_created_more_than_one_file string "string list" string
  | Subprocess "string list" "string option"

type_synonym 'a result = "event list \<times> (error + 'a)"

definition ret :: "'a \<Rightarrow> 'a result" where
  "ret x = ([], Inr x)"

definition raise :: "error \<Rightarrow> 'a result" where
  "raise e = ([], Inl e)"

text \<open>Sequencing: an exception ends the computation, what was logged before it stays.\<close>

definition and_then :: "'a result \<Rightarrow> ('a \<Rightarrow> 'b result) \<Rightarrow> 'b result" where
  "and_then m f =
     (case m of
        (ev, Inl e) \<Rightarrow> (ev, Inl e)
      | (ev, Inr x) \<Rightarrow> (case f x of (ev', y) \<Rightarrow> (ev @ ev', y)))"

text \<open>
  The collaborators the module calls, each a function of its arguments: the verdict of
  an external operation on one requirement does not depend on what happened to another.
  Where the source guards a call with \<^verbatim>\<open>try\<close>, the field tells whether it raised:
  \<^item> \<open>call_subprocess args cwd\<close> is \<open>None\<close> when the command raised, else its output;
  \<^item> \<open>build_wheel r dest metadata\<close> is \<open>None\<close> when the PEP 517 backend of \<open>r\<close> raised,
    else the wheel name it returned;
  \<^item> \<open>hash_file p\<close> is \<open>None\<close> when hashing raised, else the digest and the length;
  \<^item> \<open>rename\<close> and \<open>move\<close> are false when \<^verbatim>\<open>os.rename\<close> and \<^verbatim>\<open>shutil.move\<close> raised;
  \<^item> \<open>ensure_dir d\<close> and \<open>copy p d\<close> are \<open>Some e\<close> when they raised the \<^verbatim>\<open>OSError\<close> \<open>e\<close>.

  The calls that the source does not guard are taken to return. \<open>temp_directory r\<close> is
  the path of the \<^verbatim>\<open>TempDirectory\<close> made for the build of \<open>r\<close>, \<open>wheel_link f\<close> is
  \<^verbatim>\<open>Link(path_to_url(f))\<close>, \<open>level_above_debug\<close> is
  \<^verbatim>\<open>logger.getEffectiveLevel() > logging.DEBUG\<close>, and \<open>implementation_tag\<close> is
  \<^verbatim>\<open>pep425tags.implementation_tag\<close>.
\<close>

record vcs_backend =
  is_immutable_rev_checkout :: "string \<Rightarrow> string \<Rightarrow> bool"

record world =
  get_backend_for_scheme :: "string \<Rightarrow> vcs_backend option"
  format_command_args :: "string list \<Rightarrow> string"
  LOG_DIVIDER :: string
  level_above_debug :: bool
  make_setuptools_bdist_wheel_args ::
    "string \<Rightarrow> string list \<Rightarrow> string list \<Rightarrow> string \<Rightarrow> string option \<Rightarrow> string list"
  make_setuptools_clean_args :: "string \<Rightarrow> string list \<Rightarrow> string list"
  call_subprocess :: "string list \<Rightarrow> string option \<Rightarrow> string option"
  listdir :: "string \<Rightarrow> string list"
  temp_directory :: "req \<Rightarrow> string"
  build_wheel :: "req \<Rightarrow> string \<Rightarrow> string option \<Rightarrow> string option"
  rename :: "string \<Rightarrow> string \<Rightarrow> bool"
  hash_file :: "string \<Rightarrow> (string \<times> string) option"
  move :: "string \<Rightarrow> string \<Rightarrow> bool"
  ensure_dir :: "string \<Rightarrow> string option"
  has_delete_marker_file :: "string \<Rightarrow> bool"
  ensure_build_location :: "req \<Rightarrow> string \<Rightarrow> string"
  wheel_link :: "string \<Rightarrow> link"
  copy :: "string \<Rightarrow> string \<Rightarrow> string option"
  relpath :: "string \<Rightarrow> string \<Rightarrow> string"
  implementation_tag :: string

text \<open>
  The fields of a \<^verbatim>\<open>WheelBuilder\<close>: \<open>cache_dir\<close>, \<open>get_path_for_link\<close> and
  \<open>get_ephem_path_for_link\<close> are those of \<^verbatim>\<open>self.wheel_cache\<close>, \<open>wheel_dir\<close> is
  \<^verbatim>\<open>self._wheel_dir\<close> and \<open>build_dir\<close> is \<^verbatim>\<open>self.preparer.build_dir\<close>.
\<close>

record builder =
  cache_dir :: "string option"
  get_path_for_link :: "link option \<Rightarrow> string"
  get_ephem_path_for_link :: "link option \<Rightarrow> string"
  wheel_dir :: "string option"
  build_dir :: string
  build_options :: "string list"
  global_options :: "string list"
  check_binary_allowed :: "req \<Rightarrow> bool"
  wheel_filenames :: "string list"


section \<open>\<^verbatim>\<open>should_build\<close> and \<^verbatim>\<open>should_cache\<close>\<close>

text \<open>
  \<^verbatim>\<open>
  def should_build(req, need_wheel, check_binary_allowed):
      if req.constraint:
          return False
      if req.is_wheel:
          if need_wheel:
              logger.info('Skipping %s, due to already being wheel.', req.name)
          return False
      if need_wheel:
          return True
      if req.editable or not req.source_dir:
          return False
      if not check_binary_allowed(req):
          logger.info("Skipping wheel build for %s, due to binaries "
                      "being disabled for it.", req.name)
          return False
      return True
  \<close>
\<close>

definition should_build :: "req \<Rightarrow> bool \<Rightarrow> (req \<Rightarrow> bool) \<Rightarrow> event list \<times> bool" where
  "should_build r need_wheel binary_allowed =
     (if constraint r then ([], False)
      else if is_wheel r then
        ((if need_wheel then [Log INFO ''Skipping %s, due to already being wheel.'' [name r]]
          else []), False)
      else if need_wheel then ([], True)
      else if editable r \<or> \<not> truthy (source_dir r) then ([], False)
      else if \<not> binary_allowed r then
        ([Log INFO ''Skipping wheel build for %s, due to binaries being disabled for it.''
            [name r]], False)
      else ([], True))"

text \<open>
  \<^verbatim>\<open>
  def should_cache(req, check_binary_allowed):
      if not should_build(req, need_wheel=False,
                          check_binary_allowed=check_binary_allowed):
          return False
      if req.link and req.link.is_vcs:
          assert not req.editable
          assert req.source_dir
          vcs_backend = vcs.get_backend_for_scheme(req.link.scheme)
          assert vcs_backend
          if vcs_backend.is_immutable_rev_checkout(req.link.url, req.source_dir):
              return True
          return False
      link = req.link
      base, ext = link.splitext()
      if _contains_egg_info(base):
          return True
      return False
  \<close>
  With \<^verbatim>\<open>req.link\<close> being \<^verbatim>\<open>None\<close> the call \<^verbatim>\<open>link.splitext()\<close> raises
  \<^verbatim>\<open>AttributeError\<close>.
\<close>

definition should_cache :: "world \<Rightarrow> req \<Rightarrow> (req \<Rightarrow> bool) \<Rightarrow> bool result" where
  "should_cache w r binary_allowed =
     (case should_build r False binary_allowed of
        (ev, False) \<Rightarrow> (ev, Inr False)
      | (ev, True) \<Rightarrow>
          (case link r of
             None \<Rightarrow> (ev, Inl AttributeError)
           | Some l \<Rightarrow>
               if is_vcs l then
                 (if editable r then (ev, Inl (AssertionError []))
                  else case source_dir r of
                    None \<Rightarrow> (ev, Inl (AssertionError []))
                  | Some d \<Rightarrow>
                      if d = [] then (ev, Inl (AssertionError []))
                      else (case get_backend_for_scheme w (scheme l) of
                              None \<Rightarrow> (ev, Inl (AssertionError []))
                            | Some vcs_backend \<Rightarrow>
                                (ev, Inr (is_immutable_rev_checkout vcs_backend (url l) d))))
               else (ev, Inr (contains_egg_info (fst (splitext l))))))"

section \<open>The legacy build\<close>

text \<open>
  \<^verbatim>\<open>
  def format_command_result(command_args, command_output):
      command_desc = format_command_args(command_args)
      text = 'Command arguments: {}\n'.format(command_desc)
      if not command_output:
          text += 'Command output: None'
      elif logger.getEffectiveLevel() > logging.DEBUG:
          text += 'Command output: [use --verbose to show]'
      else:
          if not command_output.endswith('\n'):
              command_output += '\n'
          text += 'Command output:\n{}{}'.format(command_output, LOG_DIVIDER)
      return text
  \<close>
\<close>

definition format_command_result :: "world \<Rightarrow> string list \<Rightarrow> string \<Rightarrow> string" where
  "format_command_result w command_args command_output =
     (let command_desc = format_command_args w command_args;
          text = ''Command arguments: '' @ command_desc @ newline
      in if command_output = [] then text @ ''Command output: None''
         else if level_above_debug w then text @ ''Command output: [use --verbose to show]''
         else text @ ''Command output:'' @ newline @
              (if last command_output \<noteq> CHR 0x0A then command_output @ newline
               else command_output) @ LOG_DIVIDER w)"

text \<open>
  \<^verbatim>\<open>
  def get_legacy_build_wheel_path(names, temp_dir, name, command_args, command_output):
      names = sorted(names)
      if not names:
          msg = ('Legacy build of wheel for {!r} created no files.\n').format(name)
          msg += format_command_result(command_args, command_output)
          logger.warning(msg)
          return None
      if len(names) > 1:
          msg = ('Legacy build of wheel for {!r} created more than one file.\n'
                 'Filenames (choosing first): {}\n').format(name, names)
          msg += format_command_result(command_args, command_output)
          logger.warning(msg)
      return os.path.join(temp_dir, names[0])
  \<close>
\<close>

definition get_legacy_build_wheel_path ::
  "world \<Rightarrow> string list \<Rightarrow> string \<Rightarrow> string \<Rightarrow> string list \<Rightarrow> string
    \<Rightarrow> event list \<times> string option" where
  "get_legacy_build_wheel_path w names temp_dir nm command_args command_output =
     (case sort names of
        [] \<Rightarrow>
          ([Legacy_created_no_files nm (format_command_result w command_args command_output)],
           None)
      | first # others \<Rightarrow>
          ((if length (first # others) > 1 then
              [Legacy_created_more_than_one_file nm (first # others)
                 (format_command_result w command_args command_output)]
            else []),
           Some (path_join temp_dir first)))"

text \<open>
  \<^verbatim>\<open>
  def _build_wheel_legacy(name, setup_py_path, source_dir, global_options,
                          build_options, tempd, python_tag=None):
      wheel_args = make_setuptools_bdist_wheel_args(
          setup_py_path, global_options=global_options,
          build_options=build_options, destination_dir=tempd, python_tag=python_tag)
      ...
          logger.debug('Destination directory: %s', tempd)
          try:
              output = call_subprocess(wheel_args, cwd=source_dir, spinner=spinner)
          except Exception:
              spinner.finish("error")
              logger.error('Failed building wheel for %s', name)
              return None
          names = os.listdir(tempd)
          wheel_path = get_legacy_build_wheel_path(
              names=names, temp_dir=tempd, name=name,
              command_args=wheel_args, command_output=output)
          return wheel_path
  \<close>
\<close>

definition build_wheel_legacy ::
  "world \<Rightarrow> string \<Rightarrow> string \<Rightarrow> string \<Rightarrow> string list \<Rightarrow> string list \<Rightarrow> string
    \<Rightarrow> string option \<Rightarrow> event list \<times> string option" where
  "build_wheel_legacy w nm setup_py src globals opts tempd python_tag =
     (let wheel_args = make_setuptools_bdist_wheel_args w setup_py globals opts tempd python_tag;
          ev = [Log DEBUG ''Destination directory: %s'' [tempd],
                Subprocess wheel_args (Some src)]
      in case call_subprocess w wheel_args (Some src) of
           None \<Rightarrow> (ev @ [Log ERROR ''Failed building wheel for %s'' [nm]], None)
         | Some output \<Rightarrow>
             (case get_legacy_build_wheel_path w (listdir w tempd) tempd nm wheel_args output of
                (ev', wheel_path) \<Rightarrow> (ev @ ev', wheel_path)))"

section \<open>\<^verbatim>\<open>WheelBuilder\<close>\<close>

text \<open>
  \<^verbatim>\<open>
  def _build_one_pep517(self, req, tempd, python_tag=None):
      assert req.metadata_directory is not None
      if self.build_options:
          logger.error('Cannot build wheel for %s using PEP 517 when '
                       '--build-options is present' % (req.name,))
          return None
      try:
          logger.debug('Destination directory: %s', tempd)
          ...
              wheel_name = backend.build_wheel(
                  tempd, metadata_directory=req.metadata_directory)
          if python_tag:
              new_name = replace_python_tag(wheel_name, python_tag)
              os.rename(os.path.join(tempd, wheel_name), os.path.join(tempd, new_name))
              wheel_name = new_name
      except Exception:
          logger.error('Failed building wheel for %s', req.name)
          return None
      return os.path.join(tempd, wheel_name)
  \<close>
\<close>

definition build_one_pep517 ::
  "world \<Rightarrow> builder \<Rightarrow> req \<Rightarrow> string \<Rightarrow> string option \<Rightarrow> string option result" where
  "build_one_pep517 w b r tempd python_tag =
     (if metadata_directory r = None then raise (AssertionError [])
      else if build_options b \<noteq> [] then
        ([Log ERROR ''Cannot build wheel for %s using PEP 517 when --build-options is present''
            [name r]], Inr None)
      else
        (let ev = [Log DEBUG ''Destination directory: %s'' [tempd]];
             failed = (ev @ [Log ERROR ''Failed building wheel for %s'' [name r]], Inr None)
         in case build_wheel w r tempd (metadata_directory r) of
              None \<Rightarrow> failed
            | Some wheel_name \<Rightarrow>
                (case python_tag of
                   None \<Rightarrow> (ev, Inr (Some (path_join tempd wheel_name)))
                 | Some tag \<Rightarrow>
                     if tag = [] then (ev, Inr (Some (path_join tempd wheel_name)))
                     else (case replace_python_tag wheel_name tag of
                             Inl e \<Rightarrow> failed
                           | Inr new_name \<Rightarrow>
                               if rename w (path_join tempd wheel_name) (path_join tempd new_name)
                               then (ev, Inr (Some (path_join tempd new_name)))
                               else failed))))"

text \<open>
  \<^verbatim>\<open>
  def _clean_one(self, req):
      clean_args = make_setuptools_clean_args(
          req.setup_py_path, global_options=self.global_options)
      logger.info('Running setup.py clean for %s', req.name)
      try:
          call_subprocess(clean_args, cwd=req.source_dir)
          return True
      except Exception:
          logger.error('Failed cleaning build dir for %s', req.name)
          return False
  \<close>
\<close>

definition clean_one :: "world \<Rightarrow> builder \<Rightarrow> req \<Rightarrow> event list \<times> bool" where
  "clean_one w b r =
     (let clean_args = make_setuptools_clean_args w (setup_py_path r) (global_options b);
          ev = [Log INFO ''Running setup.py clean for %s'' [name r],
                Subprocess clean_args (source_dir r)]
      in case call_subprocess w clean_args (source_dir r) of
           Some output \<Rightarrow> (ev, True)
         | None \<Rightarrow> (ev @ [Log ERROR ''Failed cleaning build dir for %s'' [name r]], False))"

text \<open>
  \<^verbatim>\<open>
  def _build_one_inside_env(self, req, output_dir, python_tag=None):
      with TempDirectory(kind="wheel") as temp_dir:
          if req.use_pep517:
              wheel_path = self._build_one_pep517(req, temp_dir.path, python_tag=python_tag)
          else:
              wheel_path = _build_wheel_legacy(
                  name=req.name, setup_py_path=req.setup_py_path,
                  source_dir=req.unpacked_source_directory,
                  global_options=self.global_options, build_options=self.build_options,
                  tempd=temp_dir.path, python_tag=python_tag)
          if wheel_path is not None:
              wheel_name = os.path.basename(wheel_path)
              dest_path = os.path.join(output_dir, wheel_name)
              try:
                  wheel_hash, length = hash_file(wheel_path)
                  shutil.move(wheel_path, dest_path)
                  logger.info('Created wheel for %s: '
                              'filename=%s size=%d sha256=%s',
                              req.name, wheel_name, length, wheel_hash.hexdigest())
                  logger.info('Stored in directory: %s', output_dir)
                  return dest_path
              except Exception:
                  pass
          # Ignore return, we can't do anything else useful.
          self._clean_one(req)
          return None
  \<close>
  \<open>store_wheel\<close> is the \<^verbatim>\<open>try\<close> block: \<open>None\<close> when hashing or moving raised.
\<close>

definition store_wheel ::
  "world \<Rightarrow> req \<Rightarrow> string \<Rightarrow> string \<Rightarrow> (event list \<times> string) option" where
  "store_wheel w r output_dir wheel_path =
     (let wheel_name = basename wheel_path;
          dest_path = path_join output_dir wheel_name
      in case hash_file w wheel_path of
           None \<Rightarrow> None
         | Some (digest, nbytes) \<Rightarrow>
             if move w wheel_path dest_path then
               Some ([Log INFO ''Created wheel for %s: filename=%s size=%d sha256=%s''
                        [name r, wheel_name, nbytes, digest],
                      Log INFO ''Stored in directory: %s'' [output_dir]],
                     dest_path)
             else None)"

text \<open>
  \<open>dispatch_build\<close> is the \<^verbatim>\<open>if req.use_pep517: ... else: ...\<close> statement, which
  computes \<^verbatim>\<open>wheel_path\<close> by one of the two protocols.
\<close>

definition dispatch_build ::
  "world \<Rightarrow> builder \<Rightarrow> req \<Rightarrow> string option \<Rightarrow> string option result" where
  "dispatch_build w b r python_tag =
     (if use_pep517 r then build_one_pep517 w b r (temp_directory w r) python_tag
      else (case build_wheel_legacy w (name r) (setup_py_path r) (unpacked_source_directory r)
                   (global_options b) (build_options b) (temp_directory w r) python_tag of
              (ev, wheel_path) \<Rightarrow> (ev, Inr wheel_path)))"

definition build_one_inside_env ::
  "world \<Rightarrow> builder \<Rightarrow> req \<Rightarrow> string \<Rightarrow> string option \<Rightarrow> string option result" where
  "build_one_inside_env w b r output_dir python_tag =
     and_then (dispatch_build w b r python_tag)
       (\<lambda>wheel_path.
          case (case wheel_path of None \<Rightarrow> None | Some p \<Rightarrow> store_wheel w r output_dir p) of
            Some (ev, dest_path) \<Rightarrow> (ev, Inr (Some dest_path))
          | None \<Rightarrow> (fst (clean_one w b r), Inr None))"

text \<open>
  \<^verbatim>\<open>
  def _build_one(self, req, output_dir, python_tag=None):
      with req.build_env:
          return self._build_one_inside_env(req, output_dir, python_tag=python_tag)
  \<close>
\<close>

definition build_one ::
  "world \<Rightarrow> builder \<Rightarrow> req \<Rightarrow> string \<Rightarrow> string option \<Rightarrow> string option result" where
  "build_one w b r output_dir python_tag = build_one_inside_env w b r output_dir python_tag"


text \<open>
  \<^verbatim>\<open>WheelBuilder.build\<close>, first loop. For one requirement that is to be built:
  \<^verbatim>\<open>
            if (cache_available and should_cache(req, self.check_binary_allowed)):
                output_dir = self.wheel_cache.get_path_for_link(req.link)
            else:
                output_dir = self.wheel_cache.get_ephem_path_for_link(req.link)
  \<close>
  where \<^verbatim>\<open>cache_available = bool(self.wheel_cache.cache_dir)\<close>.
\<close>

definition cache_available :: "builder \<Rightarrow> bool" where
  "cache_available b = truthy (cache_dir b)"

definition select_output_dir :: "world \<Rightarrow> builder \<Rightarrow> req \<Rightarrow> string result" where
  "select_output_dir w b r =
     (if cache_available b then
        and_then (should_cache w r (check_binary_allowed b))
          (\<lambda>cacheable.
             ret (if cacheable then get_path_for_link b (link r)
                  else get_ephem_path_for_link b (link r)))
      else ret (get_ephem_path_for_link b (link r)))"

text \<open>
  \<^verbatim>\<open>
        buildset = []
        for req in requirements:
            if not should_build(req, need_wheel=not should_unpack,
                                check_binary_allowed=self.check_binary_allowed):
                continue
            ... output_dir as above ...
            buildset.append((req, output_dir))
  \<close>
\<close>

fun collect_buildset ::
  "world \<Rightarrow> builder \<Rightarrow> bool \<Rightarrow> req list \<Rightarrow> (req \<times> string) list result" where
  "collect_buildset w b should_unpack [] = ret []"
| "collect_buildset w b should_unpack (r # rs) =
     (case should_build r (\<not> should_unpack) (check_binary_allowed b) of
        (ev, False) \<Rightarrow>
          (case collect_buildset w b should_unpack rs of (ev', res) \<Rightarrow> (ev @ ev', res))
      | (ev, True) \<Rightarrow>
          (case select_output_dir w b r of
             (ev1, Inl e) \<Rightarrow> (ev @ ev1, Inl e)
           | (ev1, Inr output_dir) \<Rightarrow>
               (case collect_buildset w b should_unpack rs of
                  (ev', Inl e) \<Rightarrow> (ev @ ev1 @ ev', Inl e)
                | (ev', Inr buildset) \<Rightarrow> (ev @ ev1 @ ev', Inr ((r, output_dir) # buildset)))))"

text \<open>
  The body of the second loop, for one pair of the build set. It ends in one of three
  ways: the requirement goes to \<^verbatim>\<open>build_failure\<close>, the requirement (as it is after
  the unpacking) goes to \<^verbatim>\<open>build_success\<close> and a name to
  \<^verbatim>\<open>self.wheel_filenames\<close>, or an exception leaves the loop.
  \<^verbatim>\<open>
                try:
                    ensure_dir(output_dir)
                except OSError as e:
                    logger.warning("Building wheel for %s failed: %s", req.name, e)
                    build_failure.append(req)
                    continue
                wheel_file = self._build_one(req, output_dir, python_tag=python_tag)
                if wheel_file:
                    if should_unpack:
                        if (req.source_dir and
                                not has_delete_marker_file(req.source_dir)):
                            raise AssertionError("bad source dir - missing marker")
                        req.remove_temporary_source()
                        req.source_dir = req.ensure_build_location(self.preparer.build_dir)
                        req.link = Link(path_to_url(wheel_file))
                        assert req.link.is_wheel
                        unpack_file(req.link.file_path, req.source_dir)
                    else:
                        try:
                            ensure_dir(self._wheel_dir)
                            shutil.copy(os.path.join(output_dir, wheel_file), self._wheel_dir)
                        except OSError as e:
                            logger.warning("Building wheel for %s failed: %s", req.name, e)
                            build_failure.append(req)
                            continue
                    self.wheel_filenames.append(os.path.relpath(wheel_file, output_dir))
                    build_success.append(req)
                else:
                    build_failure.append(req)
  \<close>
\<close>

datatype outcome = Built req string | Failed

definition missing_marker :: "world \<Rightarrow> req \<Rightarrow> bool" where
  "missing_marker w r =
     (case source_dir r of
        None \<Rightarrow> False
      | Some d \<Rightarrow> d \<noteq> [] \<and> \<not> has_delete_marker_file w d)"

definition unpack_built :: "world \<Rightarrow> builder \<Rightarrow> req \<Rightarrow> string \<Rightarrow> req result" where
  "unpack_built w b r wheel_file =
     (if missing_marker w r then raise (AssertionError ''bad source dir - missing marker'')
      else
        (let r' = r\<lparr>source_dir := Some (ensure_build_location w r (build_dir b)),
                    link := Some (wheel_link w wheel_file)\<rparr>
         in if link_is_wheel (wheel_link w wheel_file) then ret r'
            else raise (AssertionError [])))"

text \<open>
  The inner \<^verbatim>\<open>try\<close> block: \<open>Some e\<close> when \<^verbatim>\<open>ensure_dir\<close> or \<^verbatim>\<open>shutil.copy\<close>
  raised the \<^verbatim>\<open>OSError\<close> \<open>e\<close>. With \<^verbatim>\<open>self._wheel_dir\<close> being \<^verbatim>\<open>None\<close> the
  call raises \<^verbatim>\<open>TypeError\<close>, which the \<^verbatim>\<open>except OSError\<close> clause lets through.
\<close>

definition copy_to_wheel_dir :: "world \<Rightarrow> string \<Rightarrow> string \<Rightarrow> string \<Rightarrow> string option" where
  "copy_to_wheel_dir w target output_dir wheel_file =
     (case ensure_dir w target of
        Some e \<Rightarrow> Some e
      | None \<Rightarrow> copy w (path_join output_dir wheel_file) target)"

definition build_step ::
  "world \<Rightarrow> builder \<Rightarrow> bool \<Rightarrow> string option \<Rightarrow> req \<Rightarrow> string \<Rightarrow> outcome result" where
  "build_step w b should_unpack python_tag r output_dir =
     (case ensure_dir w output_dir of
        Some e \<Rightarrow> ([Log WARNING ''Building wheel for %s failed: %s'' [name r, e]], Inr Failed)
      | None \<Rightarrow>
          and_then (build_one w b r output_dir python_tag)
            (\<lambda>wheel_file.
               case wheel_file of
                 None \<Rightarrow> ret Failed
               | Some f \<Rightarrow>
                   if f = [] then ret Failed
                   else if should_unpack then
                     and_then (unpack_built w b r f)
                       (\<lambda>r'. ret (Built r' (relpath w f output_dir)))
                   else
                     (case wheel_dir b of
                        None \<Rightarrow> raise TypeError
                      | Some target \<Rightarrow>
                          (case copy_to_wheel_dir w target output_dir f of
                             Some e \<Rightarrow>
                               ([Log WARNING ''Building wheel for %s failed: %s'' [name r, e]],
                                Inr Failed)
                           | None \<Rightarrow> ret (Built r (relpath w f output_dir))))))"

text \<open>
  The second loop, over the build set in order, with the three accumulators
  \<^verbatim>\<open>build_success\<close>, \<^verbatim>\<open>build_failure\<close> and \<^verbatim>\<open>self.wheel_filenames\<close>.
\<close>

fun build_loop ::
  "world \<Rightarrow> builder \<Rightarrow> bool \<Rightarrow> string option \<Rightarrow> (req \<times> string) list
    \<Rightarrow> req list \<times> req list \<times> string list \<Rightarrow> (req list \<times> req list \<times> string list) result" where
  "build_loop w b should_unpack python_tag [] acc = ret acc"
| "build_loop w b should_unpack python_tag ((r, output_dir) # rest) (succeeded, failed, files) =
     (case build_step w b should_unpack python_tag r output_dir of
        (ev, Inl e) \<Rightarrow> (ev, Inl e)
      | (ev, Inr Failed) \<Rightarrow>
          (case build_loop w b should_unpack python_tag rest (succeeded, failed @ [r], files) of
             (ev', res) \<Rightarrow> (ev @ ev', res))
      | (ev, Inr (Built r' f)) \<Rightarrow>
          (case build_loop w b should_unpack python_tag rest
                  (succeeded @ [r'], failed, files @ [f]) of
             (ev', res) \<Rightarrow> (ev @ ev', res)))"

text \<open>
  \<^verbatim>\<open>
    def build(self, requirements, should_unpack=False):
        assert ((should_unpack and not self._wheel_dir) or
                (not should_unpack and self._wheel_dir))
        ... first loop ...
        if not buildset:
            return []
        logger.info('Building wheels for collected packages: %s',
                    ', '.join([req.name for (req, _) in buildset]))
        python_tag = None
        if should_unpack:
            python_tag = pep425tags.implementation_tag
        ... second loop ...
        if build_success:
            logger.info('Successfully built %s',
                        ' '.join([req.name for req in build_success]))
        if build_failure:
            logger.info('Failed to build %s',
                        ' '.join([req.name for req in build_failure]))
        return build_failure
  \<close>
  The model returns \<^verbatim>\<open>build_failure\<close> together with the builder, whose
  \<open>wheel_filenames\<close> the run has extended.
\<close>

definition python_tag_of :: "world \<Rightarrow> bool \<Rightarrow> string option" where
  "python_tag_of w should_unpack = (if should_unpack then Some (implementation_tag w) else None)"

definition notify :: "req list \<Rightarrow> req list \<Rightarrow> event list" where
  "notify build_success build_failure =
     (if build_success \<noteq> [] then
        [Log INFO ''Successfully built %s'' [join '' '' (map name build_success)]]
      else []) @
     (if build_failure \<noteq> [] then
        [Log INFO ''Failed to build %s'' [join '' '' (map name build_failure)]]
      else [])"

definition build :: "world \<Rightarrow> builder \<Rightarrow> req list \<Rightarrow> bool \<Rightarrow> (req list \<times> builder) result" where
  "build w b requirements should_unpack =
     (if \<not> ((should_unpack \<and> \<not> truthy (wheel_dir b)) \<or>
             (\<not> should_unpack \<and> truthy (wheel_dir b)))
      then raise (AssertionError [])
      else
        and_then (collect_buildset w b should_unpack requirements)
          (\<lambda>buildset.
             if buildset = [] then ret ([], b)
             else
               and_then
                 ([Log INFO ''Building wheels for collected packages: %s''
                     [join '', '' (map (\<lambda>(r, output_dir). name r) buildset)]],
                  Inr ())
                 (\<lambda>u.
                    and_then
                      (build_loop w b should_unpack (python_tag_of w should_unpack)
                         buildset ([], [], wheel_filenames b))
                      (\<lambda>(build_success, build_failure, files).
                         (notify build_success build_failure,
                          Inr (build_failure, b\<lparr>wheel_filenames := files\<rparr>))))))"


section \<open>The outcome of one requirement, in the words of the specification\<close>


definition directory_creation_fails :: "world \<Rightarrow> string \<Rightarrow> bool" where
  "directory_creation_fails w output_dir = (ensure_dir w output_dir \<noteq> None)"




text \<open>
  A requirement ends the whole run when an exception leaves the loop while it is being
  processed: the build itself raises, or, after a successful build, the unpacking
  finds no marker in the source directory or a link that is no wheel, or there is no
  directory to copy into.
\<close>

definition aborts_run :: "world \<Rightarrow> builder \<Rightarrow> bool \<Rightarrow> req \<times> string \<Rightarrow> bool" where
  "aborts_run w b should_unpack entry =
     (case entry of (r, output_dir) \<Rightarrow>
        \<not> directory_creation_fails w output_dir \<and>
        (case snd (build_one w b r output_dir (python_tag_of w should_unpack)) of
           Inl e \<Rightarrow> True
         | Inr None \<Rightarrow> False
         | Inr (Some f) \<Rightarrow>
             f \<noteq> [] \<and>
             (if should_unpack then
                missing_marker w r \<or> \<not> link_is_wheel (wheel_link w f)
              else wheel_dir b = None)))"



text \<open>
  The requirements the first loop keeps, and the output directory the specification
  assigns to one of them: the persistent one only when a cache root is configured and
  \<open>should_cache\<close> approves.
\<close>

definition to_build :: "builder \<Rightarrow> bool \<Rightarrow> req \<Rightarrow> bool" where
  "to_build b should_unpack r = snd (should_build r (\<not> should_unpack) (check_binary_allowed b))"

definition expected_output_dir :: "world \<Rightarrow> builder \<Rightarrow> req \<Rightarrow> string" where
  "expected_output_dir w b r =
     (if cache_available b \<and> snd (should_cache w r (check_binary_allowed b)) = Inr True
      then get_path_for_link b (link r)
      else get_ephem_path_for_link b (link r))"

definition precondition :: "builder \<Rightarrow> bool \<Rightarrow> bool" where
  "precondition b should_unpack =
     ((should_unpack \<and> \<not> truthy (wheel_dir b)) \<or> (\<not> should_unpack \<and> truthy (wheel_dir b)))"

section \<open>A concrete environment\<close>

text \<open>
  A small world in which the theorems can be run: every source tree lives under
  \<^verbatim>\<open>/src\<close>, a command run in \<^verbatim>\<open>/src/broken\<close> fails, as does the backend of the
  requirement named \<^verbatim>\<open>broken\<close>; \<^verbatim>\<open>/readonly\<close> cannot be created and
  \<^verbatim>\<open>/src/nomarker\<close> holds no delete marker.
\<close>

definition example_wheel_link :: "string \<Rightarrow> link" where
  "example_wheel_link f =
     \<lparr>url = ''file://'' @ f, scheme = ''file'', is_vcs = False,
      splitext = (take (length (basename f) - 4) (basename f), ''.whl''),
      link_is_wheel = True, file_path = f\<rparr>"

definition example_world :: world where
  "example_world =
     \<lparr>get_backend_for_scheme =
        (\<lambda>s. if s = ''git+https''
             then Some \<lparr>is_immutable_rev_checkout =
                          (\<lambda>u d. u = ''git+https://example.org/repo.git@0123abc'')\<rparr>
             else None),
      format_command_args = join '' '',
      LOG_DIVIDER = ''----------------------------------------'',
      level_above_debug = True,
      make_setuptools_bdist_wheel_args =
        (\<lambda>setup_py globals opts dest tag.
           [''python'', setup_py] @ globals @ [''bdist_wheel'', ''-d'', dest] @ opts),
      make_setuptools_clean_args =
        (\<lambda>setup_py globals. [''python'', setup_py] @ globals @ [''clean'', ''--all'']),
      call_subprocess = (\<lambda>args cwd. if cwd = Some ''/src/broken'' then None else Some ''ok''),
      listdir = (\<lambda>d. [drop 11 d @ ''-1.0-py3-none-any.whl'']),
      temp_directory = (\<lambda>r. ''/tmp/wheel-'' @ name r),
      build_wheel =
        (\<lambda>r dest md. if name r = ''broken'' then None
                      else Some (name r @ ''-1.0-py3-none-any.whl'')),
      rename = (\<lambda>old new. True),
      hash_file = (\<lambda>p. Some (''0f3a'', ''1024'')),
      move = (\<lambda>p dest. True),
      ensure_dir = (\<lambda>d. if d = ''/readonly'' then Some ''Permission denied'' else None),
      has_delete_marker_file = (\<lambda>d. d \<noteq> ''/src/nomarker''),
      ensure_build_location = (\<lambda>r d. path_join d (name r)),
      wheel_link = example_wheel_link,
      copy = (\<lambda>p dest. None),
      relpath = (\<lambda>p start. basename p),
      implementation_tag = ''cp39''\<rparr>"

definition example_link :: "string \<Rightarrow> link" where
  "example_link nm =
     \<lparr>url = ''https://example.org/'' @ nm @ ''-1.0.tar.gz'', scheme = ''https'',
      is_vcs = False, splitext = (nm @ ''-1.0'', ''.tar.gz''), link_is_wheel = False,
      file_path = []\<rparr>"

definition example_req :: "string \<Rightarrow> req" where
  "example_req nm =
     \<lparr>name = nm, constraint = False, is_wheel = False, editable = False,
      source_dir = Some (''/src/'' @ nm), link = Some (example_link nm), use_pep517 = False,
      setup_py_path = ''/src/'' @ nm @ ''/setup.py'',
      unpacked_source_directory = ''/src/'' @ nm, metadata_directory = None\<rparr>"

definition example_vcs_link :: link where
  "example_vcs_link =
     \<lparr>url = ''git+https://example.org/repo.git@0123abc'', scheme = ''git+https'',
      is_vcs = True, splitext = (''repo.git@0123abc'', []), link_is_wheel = False,
      file_path = []\<rparr>"

definition example_vcs_req :: req where
  "example_vcs_req = (example_req ''repo'')\<lparr>link := Some example_vcs_link\<rparr>"

definition example_pep517_req :: "string \<Rightarrow> req" where
  "example_pep517_req nm =
     (example_req nm)\<lparr>use_pep517 := True, metadata_directory := Some (''/src/'' @ nm @ ''/meta'')\<rparr>"

text \<open>A builder for \<^verbatim>\<open>pip wheel\<close> (a wheel directory) and one for \<^verbatim>\<open>pip install\<close>.\<close>

definition example_builder :: "string option \<Rightarrow> string option \<Rightarrow> builder" where
  "example_builder cache target =
     \<lparr>cache_dir = cache,
      get_path_for_link = (\<lambda>l. ''/cache/wheels/ab''),
      get_ephem_path_for_link = (\<lambda>l. ''/tmp/ephem/ab''),
      wheel_dir = target, build_dir = ''/tmp/build'',
      build_options = [], global_options = [],
      check_binary_allowed = (\<lambda>r. True), wheel_filenames = []\<rparr>"

section \<open>Splitting and joining\<close>

lemma split_on_not_Nil: "split_on c s \<noteq> []"
  by (induction s) (auto split: list.splits)

lemma split_on_fields_free: "p \<in> set (split_on c s) \<Longrightarrow> c \<notin> set p"
  by (induction s arbitrary: p) (auto split: list.splits if_splits)

lemma join_split_on: "join [c] (split_on c s) = s"
proof (induction s)
  case Nil
  show ?case by simp
next
  case (Cons x xs)
  obtain p ps where ps: "split_on c xs = p # ps"
    using split_on_not_Nil [of c xs] by (cases "split_on c xs") auto
  show ?case
  proof (cases "x = c")
    case True
    with Cons ps show ?thesis by simp
  next
    case False
    with Cons ps show ?thesis by (cases ps) auto
  qed
qed

lemma split_on_free: "c \<notin> set p \<Longrightarrow> split_on c p = [p]"
  by (induction p) auto

lemma split_on_append_sep:
  "c \<notin> set p \<Longrightarrow> split_on c (p @ c # s) = p # split_on c s"
  by (induction p) (auto split: list.splits)

lemma split_on_join:
  "ps \<noteq> [] \<Longrightarrow> (\<forall>p \<in> set ps. c \<notin> set p) \<Longrightarrow> split_on c (join [c] ps) = ps"
proof (induction "[c]" ps rule: join.induct)
  case 1
  then show ?case by simp
next
  case (2 p)
  then show ?case by (simp add: split_on_free)
next
  case (3 p q ps)
  then show ?case by (simp add: split_on_append_sep)
qed

section \<open>Sequencing\<close>

lemma and_then_Inr:
  "m = (ev, Inr x) \<Longrightarrow> and_then m f = (ev @ fst (f x), snd (f x))"
  by (simp add: and_then_def split: prod.splits)

lemma and_then_Inl:
  "m = (ev, Inl e) \<Longrightarrow> and_then m f = (ev, Inl e)"
  by (simp add: and_then_def)

lemma snd_and_then:
  "snd (and_then m f) = (case snd m of Inl e \<Rightarrow> Inl e | Inr x \<Rightarrow> snd (f x))"
  by (cases m) (auto simp add: and_then_def split: sum.splits prod.splits)

section \<open>The build policy\<close>

lemma should_build_install_iff:
  "snd (should_build r False cba) \<longleftrightarrow>
     \<not> constraint r \<and> \<not> is_wheel r \<and> \<not> editable r \<and> truthy (source_dir r) \<and> cba r"
  by (simp add: should_build_def)

lemma should_cache_no_link:
  "snd (should_build r False cba) \<Longrightarrow> link r = None \<Longrightarrow> snd (should_cache w r cba) = Inl AttributeError"
  by (auto simp add: should_cache_def should_build_def split: option.splits prod.splits if_splits)

lemma should_cache_needs_should_build:
  "snd (should_cache w r cba) = Inr True \<Longrightarrow> snd (should_build r False cba)"
  by (auto simp add: should_cache_def split: option.splits prod.splits if_splits bool.splits)

section \<open>The files of a legacy build\<close>

lemma hd_sort_least:
  fixes xs :: "'a::linorder list"
  assumes "xs \<noteq> []"
  shows "hd (sort xs) \<in> set xs \<and> (\<forall>x \<in> set xs. hd (sort xs) \<le> x)"
proof -
  have "sort xs \<noteq> []"
    using assms by (metis length_0_conv length_sort)
  then obtain y ys where s: "sort xs = y # ys"
    by (cases "sort xs") auto
  have "sorted (y # ys)" using s sorted_sort by metis
  moreover have "set (y # ys) = set xs" using s set_sort by metis
  ultimately show ?thesis using s by auto
qed

lemma get_legacy_build_wheel_path_cases:
  "(names = [] \<longrightarrow>
      get_legacy_build_wheel_path w names td nm args out =
        ([Legacy_created_no_files nm (format_command_result w args out)], None))
   \<and> (\<forall>n. names = [n] \<longrightarrow>
        get_legacy_build_wheel_path w names td nm args out = ([], Some (path_join td n)))
   \<and> (2 \<le> length names \<longrightarrow>
        (\<exists>first. first \<in> set names \<and> (\<forall>n \<in> set names. first \<le> n) \<and>
           get_legacy_build_wheel_path w names td nm args out =
             ([Legacy_created_more_than_one_file nm (sort names)
                 (format_command_result w args out)],
              Some (path_join td first))))"
proof (intro conjI impI allI)
  assume "names = []"
  then show "get_legacy_build_wheel_path w names td nm args out =
        ([Legacy_created_no_files nm (format_command_result w args out)], None)"
    by (simp add: get_legacy_build_wheel_path_def)
next
  fix n assume "names = [n]"
  then show "get_legacy_build_wheel_path w names td nm args out = ([], Some (path_join td n))"
    by (simp add: get_legacy_build_wheel_path_def)
next
  assume two: "2 \<le> length names"
  then have ne: "names \<noteq> []" by auto
  then have "sort names \<noteq> []"
    by (metis length_0_conv length_sort)
  then obtain y ys where s: "sort names = y # ys"
    by (cases "sort names") auto
  have "length (y # ys) = length names"
    using s length_sort by metis
  with two have len: "1 < length (y # ys)" by simp
  have "y = hd (sort names)" using s by simp
  with hd_sort_least [OF ne] have least: "y \<in> set names \<and> (\<forall>n \<in> set names. y \<le> n)"
    by simp
  have "get_legacy_build_wheel_path w names td nm args out =
          ([Legacy_created_more_than_one_file nm (sort names)
              (format_command_result w args out)], Some (path_join td y))"
    using s len by (simp add: get_legacy_build_wheel_path_def)
  with least show "\<exists>first. first \<in> set names \<and> (\<forall>n \<in> set names. first \<le> n) \<and>
           get_legacy_build_wheel_path w names td nm args out =
             ([Legacy_created_more_than_one_file nm (sort names)
                 (format_command_result w args out)],
              Some (path_join td first))"
    by blast
qed

section \<open>The first loop: the build set\<close>

lemma snd_select_output_dir:
  "snd (select_output_dir w b r) = Inr od \<Longrightarrow> od = expected_output_dir w b r"
  by (auto simp add: select_output_dir_def expected_output_dir_def snd_and_then ret_def
      split: if_splits sum.splits)

lemma select_output_dir_no_cache:
  "\<not> cache_available b \<Longrightarrow>
     select_output_dir w b r = ([], Inr (get_ephem_path_for_link b (link r)))"
  by (simp add: select_output_dir_def ret_def)

lemma collect_buildset_Inr:
  "snd (collect_buildset w b su rs) = Inr bs \<Longrightarrow>
     bs = map (\<lambda>r. (r, expected_output_dir w b r)) (filter (to_build b su) rs)
     \<and> (\<forall>r \<in> set (filter (to_build b su) rs).
           snd (select_output_dir w b r) = Inr (expected_output_dir w b r))"
proof (induction rs arbitrary: bs)
  case Nil
  then show ?case by (simp add: ret_def)
next
  case (Cons r rs)
  show ?case
  proof (cases "to_build b su r")
    case False
    with Cons.prems have "snd (collect_buildset w b su rs) = Inr bs"
      by (auto simp add: to_build_def split: prod.splits bool.splits)
    from Cons.IH [OF this] False show ?thesis by simp
  next
    case True
    with Cons.prems obtain od bs' where
      od: "snd (select_output_dir w b r) = Inr od"
      and rest: "snd (collect_buildset w b su rs) = Inr bs'"
      and bs: "bs = (r, od) # bs'"
      by (auto simp add: to_build_def split: prod.splits bool.splits sum.splits)
    from od have "od = expected_output_dir w b r" by (rule snd_select_output_dir)
    with Cons.IH [OF rest] od bs True show ?thesis by simp
  qed
qed

lemma collect_buildset_no_cache:
  "\<not> cache_available b \<Longrightarrow>
     collect_buildset w b su rs =
       (concat (map (\<lambda>r. fst (should_build r (\<not> su) (check_binary_allowed b))) rs),
        Inr (map (\<lambda>r. (r, get_ephem_path_for_link b (link r))) (filter (to_build b su) rs)))"
  by (induction rs)
     (auto simp add: ret_def to_build_def select_output_dir_no_cache split: prod.splits bool.splits)

lemma collect_buildset_total:
  "\<forall>r \<in> set (filter (to_build b su) rs). \<exists>od. snd (select_output_dir w b r) = Inr od \<Longrightarrow>
     \<exists>bs. snd (collect_buildset w b su rs) = Inr bs"
  by (induction rs)
     (auto simp add: ret_def to_build_def split: prod.splits bool.splits sum.splits)

section \<open>The second loop: one requirement, then all\<close>

lemma snd_unpack_built:
  "snd (unpack_built w b r f) =
     (if missing_marker w r \<or> \<not> link_is_wheel (wheel_link w f)
      then Inl (if missing_marker w r then AssertionError ''bad source dir - missing marker''
                else AssertionError [])
      else Inr (r\<lparr>source_dir := Some (ensure_build_location w r (build_dir b)),
                   link := Some (wheel_link w f)\<rparr>))"
  by (simp add: unpack_built_def raise_def ret_def Let_def)

lemma build_step_aborts:
  "aborts_run w b su (r, od) \<Longrightarrow>
     \<exists>e. snd (build_step w b su (python_tag_of w su) r od) = Inl e"
  by (auto simp add: aborts_run_def build_step_def directory_creation_fails_def
        snd_and_then snd_unpack_built raise_def ret_def
      split: option.splits sum.splits if_splits)



lemma build_loop_abort:
  "\<exists>entry \<in> set bs. aborts_run w b su entry \<Longrightarrow>
     \<exists>e. snd (build_loop w b su (python_tag_of w su) bs acc) = Inl e"
proof (induction bs arbitrary: acc)
  case Nil
  then show ?case by simp
next
  case (Cons entry bs)
  obtain r od where entry: "entry = (r, od)" by (cases entry)
  obtain s f n where acc: "acc = (s, f, n)" by (cases acc)
  obtain ev res where step: "build_step w b su (python_tag_of w su) r od = (ev, res)"
    by (cases "build_step w b su (python_tag_of w su) r od")
  show ?case
  proof (cases res)
    case (Inl e)
    with entry acc step show ?thesis by simp
  next
    case (Inr out)
    have "\<not> aborts_run w b su (r, od)"
      using build_step_aborts [of w b su r od] step Inr by auto
    with Cons.prems entry have "\<exists>entry \<in> set bs. aborts_run w b su entry" by auto
    then have ih: "\<exists>e. snd (build_loop w b su (python_tag_of w su) bs acc') = Inl e" for acc'
      by (rule Cons.IH)
    show ?thesis
    proof (cases out)
      case Failed
      with ih [of "(s, f @ [r], n)"] entry acc step Inr show ?thesis
        by (auto split: prod.splits)
    next
      case (Built r' fn)
      with ih [of "(s @ [r'], f, n @ [fn])"] entry acc step Inr show ?thesis
        by (auto split: prod.splits)
    qed
  qed
qed


lemma snd_build:
  "precondition b su \<Longrightarrow> snd (collect_buildset w b su rs) = Inr bs \<Longrightarrow>
   snd (build w b rs su) =
     (case snd (build_loop w b su (python_tag_of w su) bs ([], [], wheel_filenames b)) of
        Inl e \<Rightarrow> Inl e
      | Inr (succeeded, failed, files) \<Rightarrow>
          Inr (failed, b\<lparr>wheel_filenames := files\<rparr>))"
  by (cases bs)
     (auto simp add: build_def precondition_def snd_and_then ret_def raise_def
        split: sum.splits prod.splits)

lemma snd_build_abort:
  "\<not> precondition b su \<or> (\<exists>e. snd (collect_buildset w b su rs) = Inl e) \<Longrightarrow>
     \<exists>e. snd (build w b rs su) = Inl e"
  by (auto simp add: build_def precondition_def snd_and_then ret_def raise_def
        split: sum.splits prod.splits)

section \<open>The matcher and the language of an expression\<close>

lemma nullable_lang: "nullable r \<longleftrightarrow> [] \<in> lang r"
proof (induction r)
  case (Many r)
  have "[] = concat ([] :: string list) \<and> set ([] :: string list) \<subseteq> lang r" by simp
  then have "[] \<in> lang (Many r)" unfolding lang.simps by blast
  then show ?case by simp
qed auto

lemma repeat_Cons:
  "(c # s \<in> {concat ws | ws. set ws \<subseteq> L}) \<longleftrightarrow>
     (\<exists>u v. s = u @ v \<and> c # u \<in> L \<and> v \<in> {concat ws | ws. set ws \<subseteq> L})"
proof
  assume "c # s \<in> {concat ws | ws. set ws \<subseteq> L}"
  then obtain ws where ws: "c # s = concat ws" "set ws \<subseteq> L" by blast
  then show "\<exists>u v. s = u @ v \<and> c # u \<in> L \<and> v \<in> {concat ws | ws. set ws \<subseteq> L}"
  proof (induction ws)
    case Nil
    then show ?case by simp
  next
    case (Cons x xs)
    show ?case
    proof (cases x)
      case Nil
      with Cons show ?thesis by simp
    next
      case (Cons y ys)
      with Cons.prems have "y = c" "s = ys @ concat xs" "c # ys \<in> L" "set xs \<subseteq> L"
        by auto
      then show ?thesis by blast
    qed
  qed
next
  assume "\<exists>u v. s = u @ v \<and> c # u \<in> L \<and> v \<in> {concat ws | ws. set ws \<subseteq> L}"
  then obtain u ws where "s = u @ concat ws" "c # u \<in> L" "set ws \<subseteq> L" by blast
  then have "c # s = concat ((c # u) # ws)" "set ((c # u) # ws) \<subseteq> L" by simp_all
  then show "c # s \<in> {concat ws | ws. set ws \<subseteq> L}" by blast
qed

lemma lang_deriv: "s \<in> lang (deriv c r) \<longleftrightarrow> c # s \<in> lang r"
proof (induction r arbitrary: s)
  case Never
  show ?case by simp
next
  case Empty
  show ?case by simp
next
  case (Class p)
  show ?case by auto
next
  case (Cat r1 r2)
  have "c # s \<in> lang (Cat r1 r2) \<longleftrightarrow>
          (\<exists>u v. s = u @ v \<and> c # u \<in> lang r1 \<and> v \<in> lang r2) \<or>
          ([] \<in> lang r1 \<and> c # s \<in> lang r2)"
    by (auto simp add: Cons_eq_append_conv)
  with Cat show ?case
    by (auto simp add: nullable_lang)
next
  case (Or r1 r2)
  then show ?case by simp
next
  case (Many r)
  have "s \<in> lang (deriv c (Many r)) \<longleftrightarrow>
          (\<exists>u v. s = u @ v \<and> c # u \<in> lang r \<and> v \<in> {concat ws | ws. set ws \<subseteq> lang r})"
    using Many by auto
  then show ?case
    using repeat_Cons [of c s "lang r"] by simp
qed

lemma matches_lang: "matches r s \<longleftrightarrow> s \<in> lang r"
  by (induction s arbitrary: r) (simp_all add: nullable_lang lang_deriv)

lemma re_search_lang: "re_search r s \<longleftrightarrow> (\<exists>a m z. s = a @ m @ z \<and> m \<in> lang r)"
proof -
  have "re_search r s \<longleftrightarrow> (\<exists>t. suffix t s \<and> (\<exists>m. prefix m t \<and> m \<in> lang r))"
    by (simp add: re_search_def list_ex_iff matches_lang Bex_def)
  also have "\<dots> \<longleftrightarrow> (\<exists>a m z. s = a @ m @ z \<and> m \<in> lang r)"
    by (auto simp add: suffix_def prefix_def)
  finally show ?thesis .
qed

lemma lang_one_or_more_Class:
  "lang (one_or_more (Class p)) = {u. u \<noteq> [] \<and> (\<forall>c \<in> set u. p c)}"
proof -
  have many: "{concat ws | ws. set ws \<subseteq> {[c] | c. p c}} = {v. \<forall>c \<in> set v. p c}"
  proof (intro equalityI subsetI)
    fix v assume "v \<in> {concat ws | ws. set ws \<subseteq> {[c] | c. p c}}"
    then show "v \<in> {v. \<forall>c \<in> set v. p c}" by fastforce
  next
    fix v assume "v \<in> {v. \<forall>c \<in> set v. p c}"
    then have "v = concat (map (\<lambda>c. [c]) v)" "set (map (\<lambda>c. [c]) v) \<subseteq> {[c] | c. p c}"
      by (induction v) auto
    then show "v \<in> {concat ws | ws. set ws \<subseteq> {[c] | c. p c}}" by blast
  qed
  have "lang (one_or_more (Class p)) = {[c] @ v | c v. p c \<and> (\<forall>c \<in> set v. p c)}"
    unfolding one_or_more_def lang.simps many by blast
  also have "\<dots> = {u. u \<noteq> [] \<and> (\<forall>c \<in> set u. p c)}"
  proof (intro equalityI subsetI)
    fix u assume "u \<in> {[c] @ v | c v. p c \<and> (\<forall>c \<in> set v. p c)}"
    then show "u \<in> {u. u \<noteq> [] \<and> (\<forall>c \<in> set u. p c)}" by auto
  next
    fix u assume "u \<in> {u. u \<noteq> [] \<and> (\<forall>c \<in> set u. p c)}"
    then obtain c v where "u = [c] @ v" "p c" "\<forall>c \<in> set v. p c"
      by (cases u) auto
    then show "u \<in> {[c] @ v | c v. p c \<and> (\<forall>c \<in> set v. p c)}" by blast
  qed
  finally show ?thesis .
qed

lemma lang_egg_info_re:
  "lang egg_info_re =
     {u @ [CHR ''-''] @ v | u v.
        u \<noteq> [] \<and> (\<forall>c \<in> set u. egg_name_char c) \<and> v \<noteq> [] \<and> (\<forall>c \<in> set v. egg_version_char c)}"
proof -
  have "lang egg_info_re =
      {u @ w | u w. u \<in> lang (one_or_more (Class egg_name_char)) \<and>
         w \<in> {d @ v | d v. d \<in> {[c] | c. c = CHR ''-''} \<and>
                 v \<in> lang (one_or_more (Class egg_version_char))}}"
    by (simp add: egg_info_re_def)
  then show ?thesis
    unfolding lang_one_or_more_Class by auto
qed

lemma contains_egg_info_iff:
  "contains_egg_info s \<longleftrightarrow>
     (\<exists>a x y z. s = a @ [x, CHR ''-'', y] @ z \<and> egg_name_char x \<and> egg_version_char y)"
proof
  assume "contains_egg_info s"
  then obtain a u v z where s: "s = a @ (u @ [CHR ''-''] @ v) @ z"
    and u: "u \<noteq> []" "\<forall>c \<in> set u. egg_name_char c"
    and v: "v \<noteq> []" "\<forall>c \<in> set v. egg_version_char c"
    unfolding contains_egg_info_def re_search_lang lang_egg_info_re by blast
  from u obtain u' x where u': "u = u' @ [x]" "egg_name_char x"
    by (cases u rule: rev_cases) auto
  from v obtain y v' where v': "v = y # v'" "egg_version_char y"
    by (cases v) auto
  from s u' v' have "s = (a @ u') @ [x, CHR ''-'', y] @ (v' @ z)" by simp
  with u' v' show "\<exists>a x y z. s = a @ [x, CHR ''-'', y] @ z \<and> egg_name_char x \<and> egg_version_char y"
    by blast
next
  assume "\<exists>a x y z. s = a @ [x, CHR ''-'', y] @ z \<and> egg_name_char x \<and> egg_version_char y"
  then obtain a x y z where s: "s = a @ [x, CHR ''-'', y] @ z"
    and xy: "egg_name_char x" "egg_version_char y" by blast
  have "\<exists>u v. [x, CHR ''-'', y] = u @ [CHR ''-''] @ v \<and>
          u \<noteq> [] \<and> (\<forall>c \<in> set u. egg_name_char c) \<and>
          v \<noteq> [] \<and> (\<forall>c \<in> set v. egg_version_char c)"
    using xy by (intro exI [of _ "[x]"] exI [of _ "[y]"]) simp
  then have "[x, CHR ''-'', y] \<in> lang egg_info_re"
    unfolding lang_egg_info_re by blast
  with s show "contains_egg_info s"
    unfolding contains_egg_info_def re_search_lang by blast
qed

lemma contains_egg_info_example: "contains_egg_info ''good-1.0''"
  by code_simp

lemma contains_egg_info_example_not: "\<not> contains_egg_info ''checkout''"
  by code_simp

section \<open>Evaluating the concrete environment\<close>

lemmas example_defs =
  example_world_def example_builder_def example_req_def example_link_def
  example_pep517_req_def example_wheel_link_def

lemmas build_one_defs =
  build_one_def build_one_inside_env_def dispatch_build_def build_wheel_legacy_def
  build_one_pep517_def get_legacy_build_wheel_path_def store_wheel_def clean_one_def
  and_then_def ret_def raise_def path_join_def basename_def python_tag_of_def Let_def




lemma example_buildset:
  "snd (collect_buildset example_world (example_builder None (Some ''/wheelhouse'')) False
         [example_req ''good'', example_req ''broken'', example_req ''fine'']) =
     Inr [(example_req ''good'', ''/tmp/ephem/ab''), (example_req ''broken'', ''/tmp/ephem/ab''),
          (example_req ''fine'', ''/tmp/ephem/ab'')]"
  by (simp add: example_builder_def example_req_def should_build_def select_output_dir_def
      cache_available_def truthy_def ret_def)

lemma example_build_nomarker:
  "snd (build_one example_world (example_builder None None)
         (example_req ''nomarker'') ''/tmp/ephem/ab'' (Some (implementation_tag example_world))) =
     Inr (Some ''/tmp/ephem/ab/nomarker-1.0-py3-none-any.whl'')"
  by (simp add: build_one_defs example_defs)

lemma example_pep517_dispatch:
  "snd (dispatch_build example_world (example_builder None (Some ''/wheelhouse''))
         (example_pep517_req ''broken'') None) = Inr None"
  by (simp add: build_one_defs example_defs)

section \<open>More on the second loop and on the log text\<close>


lemma build_Inr_no_abort:
  assumes "snd (build w b rs should_unpack) = Inr res"
  shows "precondition b should_unpack
       \<and> (\<exists>bs. snd (collect_buildset w b should_unpack rs) = Inr bs
              \<and> (\<forall>entry \<in> set bs. \<not> aborts_run w b should_unpack entry))"
proof -
  have pre: "precondition b should_unpack"
    using assms snd_build_abort [of b should_unpack w rs] by auto
  obtain bs where bs: "snd (collect_buildset w b should_unpack rs) = Inr bs"
    using assms snd_build_abort [of b should_unpack w rs]
    by (cases "snd (collect_buildset w b should_unpack rs)") auto
  have "\<forall>entry \<in> set bs. \<not> aborts_run w b should_unpack entry"
  proof (rule ccontr)
    assume "\<not> (\<forall>entry \<in> set bs. \<not> aborts_run w b should_unpack entry)"
    then have "\<exists>entry \<in> set bs. aborts_run w b should_unpack entry" by blast
    from build_loop_abort [OF this, of "([], [], wheel_filenames b)"]
    obtain e where "snd (build_loop w b should_unpack (python_tag_of w should_unpack) bs
        ([], [], wheel_filenames b)) = Inl e" by blast
    with snd_build [OF pre bs] assms show False by simp
  qed
  with pre bs show ?thesis by blast
qed

lemma build_one_pep517_short_name:
  assumes "metadata_directory r \<noteq> None" and "build_options b = []"
    and "build_wheel w r tempd (metadata_directory r) = Some wheel_name"
    and "length (split_on CHR ''-'' wheel_name) < 3" and "tag \<noteq> []"
  shows "build_one_pep517 w b r tempd (Some tag) =
           ([Log DEBUG ''Destination directory: %s'' [tempd],
             Log ERROR ''Failed building wheel for %s'' [name r]], Inr None)"
  using assms
  by (auto simp add: build_one_pep517_def Let_def replace_python_tag_def list_setitem_def)

lemma legacy_dispatch_returns:
  "\<not> use_pep517 r \<Longrightarrow> \<exists>p. snd (dispatch_build w b r tag) = Inr p"
  by (simp add: dispatch_build_def split: prod.splits)

lemma pep517_dispatch_returns:
  "use_pep517 r \<Longrightarrow> metadata_directory r \<noteq> None \<Longrightarrow> \<exists>p. snd (dispatch_build w b r tag) = Inr p"
  by (auto simp add: dispatch_build_def build_one_pep517_def Let_def
      split: option.splits sum.splits)

lemma format_command_result_quiet:
  "out \<noteq> [] \<Longrightarrow> level_above_debug w \<Longrightarrow>
     format_command_result w args out =
       ''Command arguments: '' @ format_command_args w args @ newline @
       ''Command output: [use --verbose to show]''"
  by (simp add: format_command_result_def Let_def)

lemma format_command_result_verbose:
  "out \<noteq> [] \<Longrightarrow> \<not> level_above_debug w \<Longrightarrow>
     \<exists>rest. format_command_result w args out =
       ''Command arguments: '' @ format_command_args w args @ newline @
       ''Command output:'' @ newline @ out @ rest"
  by (simp add: format_command_result_def Let_def)

section \<open>The claims about the build policy\<close>

text \<open>
  Claim C2. \<open>should_build\<close> returns the result of the first of its six conditions that
  applies, in the order of the specification: a constraint is never built; a requirement
  that is a wheel already is not built, and the skip is logged exactly when a wheel is
  wanted; otherwise a wanted wheel is built; otherwise an editable requirement or one
  without a source directory is not built; otherwise a requirement for which binaries
  are not allowed is not built, and the skip is logged; otherwise it is built. Each
  line below assumes that no earlier condition applied.
\<close>

theorem should_build_order:
  "(constraint r \<longrightarrow> should_build r need_wheel allowed = ([], False))
   \<and> (\<not> constraint r \<and> is_wheel r \<longrightarrow>
        should_build r need_wheel allowed =
          ((if need_wheel then [Log INFO ''Skipping %s, due to already being wheel.'' [name r]]
            else []), False))
   \<and> (\<not> constraint r \<and> \<not> is_wheel r \<and> need_wheel \<longrightarrow>
        should_build r need_wheel allowed = ([], True))
   \<and> (\<not> constraint r \<and> \<not> is_wheel r \<and> \<not> need_wheel \<and>
        (editable r \<or> \<not> truthy (source_dir r)) \<longrightarrow>
        should_build r need_wheel allowed = ([], False))
   \<and> (\<not> constraint r \<and> \<not> is_wheel r \<and> \<not> need_wheel \<and>
        \<not> editable r \<and> truthy (source_dir r) \<and> \<not> allowed r \<longrightarrow>
        should_build r need_wheel allowed =
          ([Log INFO ''Skipping wheel build for %s, due to binaries being disabled for it.''
              [name r]], False))
   \<and> (\<not> constraint r \<and> \<not> is_wheel r \<and> \<not> need_wheel \<and>
        \<not> editable r \<and> truthy (source_dir r) \<and> allowed r \<longrightarrow>
        should_build r need_wheel allowed = ([], True))"
  by (simp add: should_build_def)

theorem should_build_order_witness:
  "constraint ((example_req ''good'')\<lparr>constraint := True\<rparr>)
   \<and> should_build ((example_req ''good'')\<lparr>constraint := True\<rparr>) True (\<lambda>r. True) = ([], False)
   \<and> is_wheel ((example_req ''good'')\<lparr>is_wheel := True\<rparr>)
   \<and> should_build ((example_req ''good'')\<lparr>is_wheel := True\<rparr>) True (\<lambda>r. True) =
       ([Log INFO ''Skipping %s, due to already being wheel.'' [''good'']], False)
   \<and> should_build (example_req ''good'') True (\<lambda>r. False) = ([], True)
   \<and> editable ((example_req ''good'')\<lparr>editable := True\<rparr>)
   \<and> should_build ((example_req ''good'')\<lparr>editable := True\<rparr>) False (\<lambda>r. True) = ([], False)
   \<and> truthy (source_dir (example_req ''good''))
   \<and> should_build (example_req ''good'') False (\<lambda>r. False) =
       ([Log INFO ''Skipping wheel build for %s, due to binaries being disabled for it.''
           [''good'']], False)
   \<and> should_build (example_req ''good'') False (\<lambda>r. True) = ([], True)"
proof -
  let ?r = "example_req ''good''"
  have flags: "\<not> constraint ?r" "\<not> is_wheel ?r" "\<not> editable ?r" "truthy (source_dir ?r)"
    "name ?r = ''good''"
    by (simp_all add: example_req_def truthy_def)
  have c: "constraint (?r\<lparr>constraint := True\<rparr>)"
    and wh: "\<not> constraint (?r\<lparr>is_wheel := True\<rparr>)" "is_wheel (?r\<lparr>is_wheel := True\<rparr>)"
      "name (?r\<lparr>is_wheel := True\<rparr>) = ''good''"
    and ed: "\<not> constraint (?r\<lparr>editable := True\<rparr>)" "\<not> is_wheel (?r\<lparr>editable := True\<rparr>)"
      "editable (?r\<lparr>editable := True\<rparr>)"
    by (simp_all add: example_req_def)
  from c should_build_order [of "?r\<lparr>constraint := True\<rparr>" True "\<lambda>r. True"]
  have b1: "should_build (?r\<lparr>constraint := True\<rparr>) True (\<lambda>r. True) = ([], False)"
    by blast
  from wh should_build_order [of "?r\<lparr>is_wheel := True\<rparr>" True "\<lambda>r. True"]
  have "should_build (?r\<lparr>is_wheel := True\<rparr>) True (\<lambda>r. True) =
       ((if True then [Log INFO ''Skipping %s, due to already being wheel.''
                         [name (?r\<lparr>is_wheel := True\<rparr>)]] else []), False)"
    by blast
  with wh have b2: "should_build (?r\<lparr>is_wheel := True\<rparr>) True (\<lambda>r. True) =
       ([Log INFO ''Skipping %s, due to already being wheel.'' [''good'']], False)"
    by simp
  from flags should_build_order [of ?r True "\<lambda>r. False"]
  have b3: "should_build ?r True (\<lambda>r. False) = ([], True)"
    by blast
  from ed should_build_order [of "?r\<lparr>editable := True\<rparr>" False "\<lambda>r. True"]
  have b4: "should_build (?r\<lparr>editable := True\<rparr>) False (\<lambda>r. True) = ([], False)"
    by blast
  from flags should_build_order [of ?r False "\<lambda>r. False"]
  have "should_build ?r False (\<lambda>r. False) =
       ([Log INFO ''Skipping wheel build for %s, due to binaries being disabled for it.''
           [name ?r]], False)"
    by blast
  with flags have b5: "should_build ?r False (\<lambda>r. False) =
       ([Log INFO ''Skipping wheel build for %s, due to binaries being disabled for it.''
           [''good'']], False)"
    by simp
  from flags should_build_order [of ?r False "\<lambda>r. True"]
  have b6: "should_build ?r False (\<lambda>r. True) = ([], True)"
    by blast
  from c wh ed flags b1 b2 b3 b4 b5 b6 show ?thesis by blast
qed

text \<open>
  Claim C6. A requirement whose link is a VCS link, with the backend that the VCS layer
  has for the link's scheme: when \<open>should_build\<close> for an installation is true (so the
  requirement is no constraint, no wheel, not editable, has a source directory, and
  binaries are allowed for it), \<open>should_cache\<close> returns what the backend says about the
  checkout being an immutable revision; and whatever the flags of the requirement, on a
  checkout that the backend does not report as immutable \<open>should_cache\<close> returns false.
\<close>

theorem should_cache_vcs:
  assumes "link r = Some l" and "is_vcs l"
    and "get_backend_for_scheme w (scheme l) = Some bk"
  shows "(snd (should_build r False allowed) \<longrightarrow>
            (\<exists>d. source_dir r = Some d \<and>
               snd (should_cache w r allowed) = Inr (is_immutable_rev_checkout bk (url l) d)))
       \<and> ((\<forall>d. source_dir r = Some d \<longrightarrow> \<not> is_immutable_rev_checkout bk (url l) d) \<longrightarrow>
            snd (should_cache w r allowed) = Inr False)"
  using assms
  by (auto simp add: should_cache_def should_build_def truthy_def split: option.splits)

theorem should_cache_vcs_witness:
  "link example_vcs_req = Some example_vcs_link \<and> is_vcs example_vcs_link
   \<and> snd (should_build example_vcs_req False (\<lambda>r. True))
   \<and> snd (should_cache example_world example_vcs_req (\<lambda>r. True)) = Inr True
   \<and> snd (should_cache
        (example_world\<lparr>get_backend_for_scheme :=
           (\<lambda>s. Some \<lparr>is_immutable_rev_checkout = (\<lambda>u d. False)\<rparr>)\<rparr>)
        example_vcs_req (\<lambda>r. True)) = Inr False"
proof -
  let ?pinned = "\<lparr>is_immutable_rev_checkout =
                    (\<lambda>u d. u = ''git+https://example.org/repo.git@0123abc'')\<rparr>"
  let ?movable = "\<lparr>is_immutable_rev_checkout = (\<lambda>u d::string. False)\<rparr>"
  let ?w = "example_world\<lparr>get_backend_for_scheme := (\<lambda>s. Some ?movable)\<rparr>"
  have l: "link example_vcs_req = Some example_vcs_link"
    by (simp add: example_vcs_req_def)
  have v: "is_vcs example_vcs_link"
    by (simp add: example_vcs_link_def)
  have bk: "get_backend_for_scheme example_world (scheme example_vcs_link) = Some ?pinned"
    by (simp add: example_world_def example_vcs_link_def)
  have bk': "get_backend_for_scheme ?w (scheme example_vcs_link) = Some ?movable"
    by simp
  have sb: "snd (should_build example_vcs_req False (\<lambda>r. True))"
    by (simp add: should_build_def example_vcs_req_def example_req_def truthy_def)
  from should_cache_vcs [OF l v bk, of "\<lambda>r. True"] sb
  obtain d where "snd (should_cache example_world example_vcs_req (\<lambda>r. True)) =
      Inr (is_immutable_rev_checkout ?pinned (url example_vcs_link) d)"
    by blast
  then have pinned: "snd (should_cache example_world example_vcs_req (\<lambda>r. True)) = Inr True"
    by (simp add: example_vcs_link_def)
  from should_cache_vcs [OF l v bk', of "\<lambda>r. True"]
  have movable: "snd (should_cache ?w example_vcs_req (\<lambda>r. True)) = Inr False"
    by simp
  from l v sb pinned movable show ?thesis by simp
qed

text \<open>
  Claim C9. A requirement with a link that is no VCS link, for which \<open>should_build\<close> for an
  installation is true: \<open>should_cache\<close> returns whether the base name of the link (its
  file name without the extension, the first component of \<^verbatim>\<open>link.splitext()\<close>) holds
  the egg-info pattern, which it does exactly when a name character, a dash and a
  version character stand next to each other in it.
\<close>

theorem should_cache_archive:
  assumes "snd (should_build r False allowed)" and "link r = Some l" and "\<not> is_vcs l"
  shows "snd (should_cache w r allowed) = Inr (contains_egg_info (fst (splitext l)))
       \<and> (contains_egg_info (fst (splitext l)) \<longleftrightarrow>
            (\<exists>a x y z. fst (splitext l) = a @ [x, CHR ''-'', y] @ z \<and>
               egg_name_char x \<and> egg_version_char y))"
proof -
  have "snd (should_cache w r allowed) = Inr (contains_egg_info (fst (splitext l)))"
    using assms
    by (auto simp add: should_cache_def should_build_def
        split: option.splits prod.splits if_splits)
  then show ?thesis
    using contains_egg_info_iff [of "fst (splitext l)"] by blast
qed

theorem should_cache_archive_witness:
  "snd (should_build (example_req ''good'') False (\<lambda>r. True))
   \<and> link (example_req ''good'') = Some (example_link ''good'')
   \<and> is_vcs (example_link ''good'') = False
   \<and> snd (should_cache example_world (example_req ''good'') (\<lambda>r. True)) = Inr True"
proof -
  have sb: "snd (should_build (example_req ''good'') False (\<lambda>r. True))"
    by (simp add: should_build_def example_req_def truthy_def)
  have l: "link (example_req ''good'') = Some (example_link ''good'')"
    by (simp add: example_req_def)
  have v: "\<not> is_vcs (example_link ''good'')"
    by (simp add: example_link_def)
  have "snd (should_cache example_world (example_req ''good'') (\<lambda>r. True)) =
          Inr (contains_egg_info (fst (splitext (example_link ''good''))))"
    using sb l v by (rule should_cache_archive [THEN conjunct1])
  moreover have "fst (splitext (example_link ''good'')) = ''good-1.0''"
    by (simp add: example_link_def)
  ultimately have "snd (should_cache example_world (example_req ''good'') (\<lambda>r. True)) = Inr True"
    using contains_egg_info_example by simp
  with sb l v show ?thesis by simp
qed

text \<open>
  Claim C5. Without a persistent cache root the output directory of a requirement is the
  ephemeral one and \<open>should_cache\<close> is not called: nothing is logged and nothing of the
  world is consulted, so nothing can be raised. With a cache root, \<open>should_cache\<close> is called; the
  persistent directory is chosen when it returns true, the ephemeral one when it
  returns false, and its exception is passed on. In the build set of \<open>build\<close> every
  requirement that is to be built is paired with the directory chosen so.
\<close>

theorem output_directory_selection:
  "(\<not> cache_available b \<longrightarrow>
      select_output_dir w b r = ([], Inr (get_ephem_path_for_link b (link r))))
   \<and> (cache_available b \<longrightarrow>
        select_output_dir w b r =
          (fst (should_cache w r (check_binary_allowed b)),
           case snd (should_cache w r (check_binary_allowed b)) of
             Inl e \<Rightarrow> Inl e
           | Inr cacheable \<Rightarrow>
               Inr (if cacheable then get_path_for_link b (link r)
                    else get_ephem_path_for_link b (link r))))
   \<and> (\<forall>bs. snd (collect_buildset w b should_unpack rs) = Inr bs \<longrightarrow>
        bs = map (\<lambda>r. (r, expected_output_dir w b r)) (filter (to_build b should_unpack) rs))
   \<and> (\<not> cache_available b \<longrightarrow>
        collect_buildset w b should_unpack rs =
          (concat (map (\<lambda>r. fst (should_build r (\<not> should_unpack) (check_binary_allowed b))) rs),
           Inr (map (\<lambda>r. (r, get_ephem_path_for_link b (link r)))
                  (filter (to_build b should_unpack) rs))))"
proof -
  have "select_output_dir w b r =
          (fst (should_cache w r (check_binary_allowed b)),
           case snd (should_cache w r (check_binary_allowed b)) of
             Inl e \<Rightarrow> Inl e
           | Inr cacheable \<Rightarrow>
               Inr (if cacheable then get_path_for_link b (link r)
                    else get_ephem_path_for_link b (link r)))"
    if "cache_available b"
    using that
    by (auto simp add: select_output_dir_def and_then_def ret_def split: prod.splits sum.splits)
  then show ?thesis
    using select_output_dir_no_cache [of b w r] collect_buildset_no_cache [of b w should_unpack rs]
      collect_buildset_Inr [of w b should_unpack rs]
    by blast
qed

theorem output_directory_selection_witness:
  "\<not> cache_available (example_builder None (Some ''/wheelhouse''))
   \<and> select_output_dir example_world (example_builder None (Some ''/wheelhouse''))
        (example_req ''good'') = ([], Inr ''/tmp/ephem/ab'')
   \<and> cache_available (example_builder (Some ''/cache'') (Some ''/wheelhouse''))
   \<and> select_output_dir example_world (example_builder (Some ''/cache'') (Some ''/wheelhouse''))
        (example_req ''good'') = ([], Inr ''/cache/wheels/ab'')
   \<and> select_output_dir example_world (example_builder (Some ''/cache'') (Some ''/wheelhouse''))
        ((example_req ''good'')\<lparr>link := Some ((example_link ''good'')\<lparr>splitext := (''checkout'', [])\<rparr>)\<rparr>)
        = ([], Inr ''/tmp/ephem/ab'')
   \<and> map snd (map (\<lambda>r. (r, expected_output_dir example_world
                                (example_builder None (Some ''/wheelhouse'')) r))
          (filter (to_build (example_builder None (Some ''/wheelhouse'')) False)
             [example_req ''good'', example_req ''broken'', example_req ''fine''])) =
        [''/tmp/ephem/ab'', ''/tmp/ephem/ab'', ''/tmp/ephem/ab'']"
proof -
  let ?b = "example_builder None (Some ''/wheelhouse'')"
  let ?c = "example_builder (Some ''/cache'') (Some ''/wheelhouse'')"
  let ?r = "example_req ''good''"
  let ?u = "(example_req ''good'')\<lparr>link := Some ((example_link ''good'')\<lparr>splitext := (''checkout'', [])\<rparr>)\<rparr>"
  have nb: "\<not> cache_available ?b"
    by (simp add: cache_available_def example_builder_def truthy_def)
  have cb: "cache_available ?c"
    by (simp add: cache_available_def example_builder_def truthy_def)
  have e1: "contains_egg_info ''good-1.0''" by code_simp
  have e2: "\<not> contains_egg_info ''checkout''" by code_simp
  have sc: "should_cache example_world ?r (check_binary_allowed ?c) = ([], Inr True)"
    using e1
    by (simp add: should_cache_def should_build_def example_req_def example_link_def
        example_builder_def truthy_def)
  have su: "should_cache example_world ?u (check_binary_allowed ?c) = ([], Inr False)"
    using e2
    by (simp add: should_cache_def should_build_def example_req_def example_link_def
        example_builder_def truthy_def)
  from nb output_directory_selection [of ?b example_world ?r]
  have a: "select_output_dir example_world ?b ?r =
             ([], Inr (get_ephem_path_for_link ?b (link ?r)))"
    by blast
  from cb output_directory_selection [of ?c example_world ?r]
  have "select_output_dir example_world ?c ?r =
          (fst (should_cache example_world ?r (check_binary_allowed ?c)),
           case snd (should_cache example_world ?r (check_binary_allowed ?c)) of
             Inl e \<Rightarrow> Inl e
           | Inr cacheable \<Rightarrow>
               Inr (if cacheable then get_path_for_link ?c (link ?r)
                    else get_ephem_path_for_link ?c (link ?r)))"
    by blast
  with sc have c: "select_output_dir example_world ?c ?r = ([], Inr ''/cache/wheels/ab'')"
    by (simp add: example_builder_def)
  from cb output_directory_selection [of ?c example_world ?u]
  have "select_output_dir example_world ?c ?u =
          (fst (should_cache example_world ?u (check_binary_allowed ?c)),
           case snd (should_cache example_world ?u (check_binary_allowed ?c)) of
             Inl e \<Rightarrow> Inl e
           | Inr cacheable \<Rightarrow>
               Inr (if cacheable then get_path_for_link ?c (link ?u)
                    else get_ephem_path_for_link ?c (link ?u)))"
    by blast
  with su have d: "select_output_dir example_world ?c ?u = ([], Inr ''/tmp/ephem/ab'')"
    by (simp add: example_builder_def)
  from a have a': "select_output_dir example_world ?b ?r = ([], Inr ''/tmp/ephem/ab'')"
    by (simp add: example_builder_def)
  from example_buildset
    output_directory_selection [of ?b example_world ?r False
      "[example_req ''good'', example_req ''broken'', example_req ''fine'']"]
  have "[(example_req ''good'', ''/tmp/ephem/ab''), (example_req ''broken'', ''/tmp/ephem/ab''),
         (example_req ''fine'', ''/tmp/ephem/ab'')] =
        map (\<lambda>r. (r, expected_output_dir example_world ?b r))
          (filter (to_build ?b False)
             [example_req ''good'', example_req ''broken'', example_req ''fine''])"
    by blast
  from this [symmetric]
  have "map snd (map (\<lambda>r. (r, expected_output_dir example_world ?b r))
          (filter (to_build ?b False)
             [example_req ''good'', example_req ''broken'', example_req ''fine''])) =
        map snd [(example_req ''good'', ''/tmp/ephem/ab''),
                 (example_req ''broken'', ''/tmp/ephem/ab''),
                 (example_req ''fine'', ''/tmp/ephem/ab'')]"
    by (rule arg_cong)
  also have "\<dots> = [''/tmp/ephem/ab'', ''/tmp/ephem/ab'', ''/tmp/ephem/ab'']"
    by simp
  finally have e: "map snd (map (\<lambda>r. (r, expected_output_dir example_world ?b r))
          (filter (to_build ?b False)
             [example_req ''good'', example_req ''broken'', example_req ''fine''])) =
        [''/tmp/ephem/ab'', ''/tmp/ephem/ab'', ''/tmp/ephem/ab'']" .
  from nb cb a' c d e show ?thesis by blast
qed

section \<open>The claim about the legacy build\<close>

text \<open>
  Claim C4. A legacy build whose command returned (with output \<open>out\<close>): when the
  destination directory lists no file the build fails, and the warning logged carries
  the text that \<open>format_command_result\<close> makes of the command and its output; when it
  lists one file the result is the path of that file; when it lists two or more, a
  warning with the sorted names is logged and the result is the path of the least name
  in the order of strings. The text of \<open>format_command_result\<close> always holds the
  command; it holds the output itself when the logger is at debug level, and a
  placeholder otherwise.
\<close>

theorem legacy_build_result_by_files:
  assumes "call_subprocess w (make_setuptools_bdist_wheel_args w setup_py globals opts tempd tag)
             (Some src) = Some out"
  shows "let args = make_setuptools_bdist_wheel_args w setup_py globals opts tempd tag;
             ev = [Log DEBUG ''Destination directory: %s'' [tempd], Subprocess args (Some src)];
             res = build_wheel_legacy w nm setup_py src globals opts tempd tag;
             msg = format_command_result w args out
         in (listdir w tempd = [] \<longrightarrow> res = (ev @ [Legacy_created_no_files nm msg], None))
          \<and> (\<forall>n. listdir w tempd = [n] \<longrightarrow> res = (ev, Some (path_join tempd n)))
          \<and> (2 \<le> length (listdir w tempd) \<longrightarrow>
               (\<exists>first. first \<in> set (listdir w tempd)
                  \<and> (\<forall>n \<in> set (listdir w tempd). first \<le> n)
                  \<and> res = (ev @ [Legacy_created_more_than_one_file nm
                                   (sort (listdir w tempd)) msg],
                           Some (path_join tempd first))))
          \<and> (\<exists>rest. msg = ''Command arguments: '' @ format_command_args w args @ newline @ rest)
          \<and> (out \<noteq> [] \<and> \<not> level_above_debug w \<longrightarrow>
               (\<exists>rest. msg = ''Command arguments: '' @ format_command_args w args @ newline @
                               ''Command output:'' @ newline @ out @ rest))"
proof -
  let ?args = "make_setuptools_bdist_wheel_args w setup_py globals opts tempd tag"
  let ?ev = "[Log DEBUG ''Destination directory: %s'' [tempd], Subprocess ?args (Some src)]"
  let ?msg = "format_command_result w ?args out"
  let ?g = "get_legacy_build_wheel_path w (listdir w tempd) tempd nm ?args out"
  have res: "build_wheel_legacy w nm setup_py src globals opts tempd tag = (?ev @ fst ?g, snd ?g)"
    using assms by (simp add: build_wheel_legacy_def Let_def split: prod.splits)
  note cases = get_legacy_build_wheel_path_cases [of "listdir w tempd" w tempd nm ?args out]
  have c1: "build_wheel_legacy w nm setup_py src globals opts tempd tag =
        (?ev @ [Legacy_created_no_files nm ?msg], None)"
    if "listdir w tempd = []"
    using that cases res by simp
  have c2: "build_wheel_legacy w nm setup_py src globals opts tempd tag =
        (?ev, Some (path_join tempd n))"
    if "listdir w tempd = [n]" for n
    using that cases res by simp
  have c3: "\<exists>first. first \<in> set (listdir w tempd)
                  \<and> (\<forall>n \<in> set (listdir w tempd). first \<le> n)
                  \<and> build_wheel_legacy w nm setup_py src globals opts tempd tag =
                      (?ev @ [Legacy_created_more_than_one_file nm (sort (listdir w tempd)) ?msg],
                       Some (path_join tempd first))"
    if "2 \<le> length (listdir w tempd)"
  proof -
    from that cases obtain first where
      f: "first \<in> set (listdir w tempd)" "\<forall>n \<in> set (listdir w tempd). first \<le> n"
      and eq: "?g = ([Legacy_created_more_than_one_file nm (sort (listdir w tempd)) ?msg],
                     Some (path_join tempd first))"
      by blast
    from eq res have "build_wheel_legacy w nm setup_py src globals opts tempd tag =
                      (?ev @ [Legacy_created_more_than_one_file nm (sort (listdir w tempd)) ?msg],
                       Some (path_join tempd first))"
      by simp
    with f show ?thesis by blast
  qed
  have c4: "\<exists>rest. ?msg = ''Command arguments: '' @ format_command_args w ?args @ newline @ rest"
    by (simp add: format_command_result_def Let_def)
  have c5: "\<exists>rest. ?msg = ''Command arguments: '' @ format_command_args w ?args @ newline @
                               ''Command output:'' @ newline @ out @ rest"
    if "out \<noteq> [] \<and> \<not> level_above_debug w"
    using that format_command_result_verbose [of out w ?args] by blast
  from c1 c2 c3 c4 c5 show ?thesis
    unfolding Let_def by blast
qed

theorem legacy_build_result_by_files_witness:
  "call_subprocess example_world
      (make_setuptools_bdist_wheel_args example_world
         ''/src/good/setup.py'' [] [] ''/tmp/wheel-good'' None)
      (Some ''/src/good'') = Some ''ok''
   \<and> snd (build_wheel_legacy (example_world\<lparr>listdir := (\<lambda>d. [])\<rparr>)
        ''good'' ''/src/good/setup.py'' ''/src/good'' [] [] ''/tmp/wheel-good'' None) = None
   \<and> snd (build_wheel_legacy example_world
        ''good'' ''/src/good/setup.py'' ''/src/good'' [] [] ''/tmp/wheel-good'' None)
       = Some ''/tmp/wheel-good/good-1.0-py3-none-any.whl''
   \<and> snd (build_wheel_legacy (example_world\<lparr>listdir := (\<lambda>d. [''b.whl'', ''a.whl''])\<rparr>)
        ''good'' ''/src/good/setup.py'' ''/src/good'' [] [] ''/tmp/wheel-good'' None)
       = Some ''/tmp/wheel-good/a.whl''"
proof -
  let ?none = "example_world\<lparr>listdir := (\<lambda>d. [])\<rparr>"
  let ?two = "example_world\<lparr>listdir := (\<lambda>d. [''b.whl'', ''a.whl''])\<rparr>"
  have run: "call_subprocess w
      (make_setuptools_bdist_wheel_args w ''/src/good/setup.py'' [] [] ''/tmp/wheel-good'' None)
      (Some ''/src/good'') = Some ''ok''"
    if "call_subprocess w = call_subprocess example_world" for w
    using that by (simp add: example_world_def)
  have run0: "call_subprocess ?none
      (make_setuptools_bdist_wheel_args ?none ''/src/good/setup.py'' [] [] ''/tmp/wheel-good'' None)
      (Some ''/src/good'') = Some ''ok''"
    by (rule run) simp
  have run1: "call_subprocess example_world
      (make_setuptools_bdist_wheel_args example_world ''/src/good/setup.py'' [] []
         ''/tmp/wheel-good'' None)
      (Some ''/src/good'') = Some ''ok''"
    by (rule run) simp
  have run2: "call_subprocess ?two
      (make_setuptools_bdist_wheel_args ?two ''/src/good/setup.py'' [] [] ''/tmp/wheel-good'' None)
      (Some ''/src/good'') = Some ''ok''"
    by (rule run) simp
  have empty: "listdir ?none ''/tmp/wheel-good'' = []"
    by simp
  have one: "listdir example_world ''/tmp/wheel-good'' = [''good-1.0-py3-none-any.whl'']"
    by (simp add: example_world_def)
  have two: "2 \<le> length (listdir ?two ''/tmp/wheel-good'')"
    by simp
  note first_case = legacy_build_result_by_files [OF run0, of "''good''", unfolded Let_def,
      THEN conjunct1, rule_format, OF empty]
  then have r0: "snd (build_wheel_legacy ?none ''good'' ''/src/good/setup.py'' ''/src/good'' [] []
      ''/tmp/wheel-good'' None) = None"
    by simp
  note second_case = legacy_build_result_by_files [OF run1, of "''good''", unfolded Let_def,
      THEN conjunct2, THEN conjunct1, rule_format, OF one]
  then have r1: "snd (build_wheel_legacy example_world ''good'' ''/src/good/setup.py''
      ''/src/good'' [] [] ''/tmp/wheel-good'' None) = Some ''/tmp/wheel-good/good-1.0-py3-none-any.whl''"
    by (simp add: path_join_def)
  note third_case = legacy_build_result_by_files [OF run2, of "''good''", unfolded Let_def,
      THEN conjunct2, THEN conjunct2, THEN conjunct1, rule_format, OF two]
  then obtain first ev where
    mem: "first \<in> set (listdir ?two ''/tmp/wheel-good'')"
    and least: "\<forall>n \<in> set (listdir ?two ''/tmp/wheel-good''). first \<le> n"
    and res: "build_wheel_legacy ?two ''good'' ''/src/good/setup.py'' ''/src/good'' [] []
                ''/tmp/wheel-good'' None = (ev, Some (path_join ''/tmp/wheel-good'' first))"
    by blast
  have names: "listdir ?two ''/tmp/wheel-good'' = [''b.whl'', ''a.whl'']"
    by simp
  from least names have le: "first \<le> ''a.whl''" by simp
  have "\<not> ''b.whl'' \<le> ''a.whl''"
    by (simp add: less_eq_char_def)
  with le have "first \<noteq> ''b.whl''" by blast
  with mem names have "first = ''a.whl''" by simp
  with res have "snd (build_wheel_legacy ?two ''good'' ''/src/good/setup.py'' ''/src/good'' [] []
                ''/tmp/wheel-good'' None) = Some (path_join ''/tmp/wheel-good'' ''a.whl'')"
    by simp
  then have r2: "snd (build_wheel_legacy ?two ''good'' ''/src/good/setup.py'' ''/src/good'' [] []
                ''/tmp/wheel-good'' None) = Some ''/tmp/wheel-good/a.whl''"
    by (simp add: path_join_def)
  from run1 r0 r1 r2 show ?thesis by blast
qed

section \<open>The claims about the run over a batch\<close>



text \<open>
  Claim C3. In a run for installation (\<open>should_unpack\<close> true), a requirement of the batch
  that is to be built, whose output directory exists or can be made and whose build
  yields a wheel, but whose source directory holds no delete marker, makes \<open>build\<close>
  raise: the run returns no list of failures at all. When that requirement is the whole
  batch and the precondition holds, the exception is the assertion error for the
  missing marker.
\<close>

theorem missing_marker_aborts_run:
  assumes "r \<in> set rs"
    and "to_build b True r"
    and "snd (select_output_dir w b r) = Inr output_dir"
    and "ensure_dir w output_dir = None"
    and "snd (build_one w b r output_dir (Some (implementation_tag w))) = Inr (Some f)"
    and "f \<noteq> []"
    and "source_dir r = Some d"
    and "\<not> has_delete_marker_file w d"
  shows "(\<exists>e. snd (build w b rs True) = Inl e)
       \<and> (precondition b True \<and> rs = [r] \<longrightarrow>
            snd (build w b rs True) = Inl (AssertionError ''bad source dir - missing marker''))"
proof -
  have truthy: "truthy (source_dir r)"
    using assms(2) by (simp add: to_build_def should_build_install_iff)
  with assms(7) have d: "d \<noteq> []" by (simp add: truthy_def)
  with assms(7) assms(8) have mm: "missing_marker w r"
    by (simp add: missing_marker_def)
  have od: "output_dir = expected_output_dir w b r"
    using assms(3) by (rule snd_select_output_dir)
  have ab: "aborts_run w b True (r, output_dir)"
    using assms(4) assms(5) assms(6) mm
    by (simp add: aborts_run_def directory_creation_fails_def python_tag_of_def)
  have first: "\<exists>e. snd (build w b rs True) = Inl e"
  proof (cases "precondition b True")
    case False
    then show ?thesis using snd_build_abort [of b True w rs] by blast
  next
    case True
    show ?thesis
    proof (cases "snd (collect_buildset w b True rs)")
      case (Inl e)
      then show ?thesis using snd_build_abort [of b True w rs] by blast
    next
      case (Inr bs)
      from collect_buildset_Inr [OF Inr] assms(1) assms(2) od
      have "(r, output_dir) \<in> set bs" by auto
      with ab have "\<exists>entry \<in> set bs. aborts_run w b True entry" by blast
      from build_loop_abort [OF this, of "([], [], wheel_filenames b)"]
      obtain e where "snd (build_loop w b True (python_tag_of w True) bs
        ([], [], wheel_filenames b)) = Inl e" by blast
      with snd_build [OF True Inr] show ?thesis by simp
    qed
  qed
  have single: "snd (build w b rs True) = Inl (AssertionError ''bad source dir - missing marker'')"
    if pre: "precondition b True" and rs: "rs = [r]"
  proof -
    have "snd (collect_buildset w b True [r]) = Inr [(r, output_dir)]"
      using assms(2) assms(3)
      by (auto simp add: to_build_def ret_def split: prod.splits bool.splits sum.splits)
    with rs have bs: "snd (collect_buildset w b True rs) = Inr [(r, output_dir)]" by simp
    have "snd (build_step w b True (python_tag_of w True) r output_dir) =
            Inl (AssertionError ''bad source dir - missing marker'')"
      using assms(4) assms(5) assms(6) mm
      by (simp add: build_step_def python_tag_of_def snd_and_then snd_unpack_built)
    then have "snd (build_loop w b True (python_tag_of w True) [(r, output_dir)]
        ([], [], wheel_filenames b)) = Inl (AssertionError ''bad source dir - missing marker'')"
      by (auto split: prod.splits sum.splits)
    with snd_build [OF pre bs] show ?thesis by simp
  qed
  from first single show ?thesis by blast
qed

theorem missing_marker_aborts_run_witness:
  "example_req ''nomarker'' \<in> set [example_req ''nomarker'', example_req ''fine'']
   \<and> to_build (example_builder None None) True (example_req ''nomarker'')
   \<and> source_dir (example_req ''nomarker'') = Some ''/src/nomarker''
   \<and> has_delete_marker_file example_world ''/src/nomarker'' = False
   \<and> (\<exists>e. snd (build example_world (example_builder None None)
                [example_req ''nomarker'', example_req ''fine''] True) = Inl e)
   \<and> snd (build example_world (example_builder None None) [example_req ''nomarker''] True) =
       Inl (AssertionError ''bad source dir - missing marker'')"
proof -
  let ?b = "example_builder None None"
  let ?r = "example_req ''nomarker''"
  have mem: "?r \<in> set [?r, example_req ''fine'']" and mem1: "?r \<in> set [?r]"
    by simp_all
  have tb: "to_build ?b True ?r"
    by (simp add: to_build_def should_build_def example_builder_def example_req_def truthy_def)
  have od: "snd (select_output_dir example_world ?b ?r) = Inr ''/tmp/ephem/ab''"
    by (simp add: select_output_dir_def cache_available_def example_builder_def truthy_def ret_def)
  have ed: "ensure_dir example_world ''/tmp/ephem/ab'' = None"
    by (simp add: example_world_def)
  have f: "''/tmp/ephem/ab/nomarker-1.0-py3-none-any.whl'' \<noteq> []"
    by simp
  have sd: "source_dir ?r = Some ''/src/nomarker''"
    by (simp add: example_req_def)
  have nm: "\<not> has_delete_marker_file example_world ''/src/nomarker''"
    by (simp add: example_world_def)
  have pre: "precondition ?b True"
    by (simp add: precondition_def example_builder_def truthy_def)
  have batch: "\<exists>e. snd (build example_world ?b [?r, example_req ''fine''] True) = Inl e"
    by (rule missing_marker_aborts_run
          [OF mem tb od ed example_build_nomarker f sd nm, THEN conjunct1])
  have "precondition ?b True \<and> [?r] = [?r] \<longrightarrow>
          snd (build example_world ?b [?r] True) =
            Inl (AssertionError ''bad source dir - missing marker'')"
    by (rule missing_marker_aborts_run
          [OF mem1 tb od ed example_build_nomarker f sd nm, THEN conjunct2])
  with pre have single: "snd (build example_world ?b [?r] True) =
            Inl (AssertionError ''bad source dir - missing marker'')"
    by simp
  from mem tb sd nm batch single show ?thesis by simp
qed

text \<open>
  Claim C7, as the code has it. Whenever the protocol build of a requirement returns
  without an artifact path, or storing the artifact in the output directory fails,
  \<open>_build_one_inside_env\<close> runs the clean command in the source directory, for a
  requirement of either protocol; a failure of that command adds one error record to
  the log and changes nothing else; the result is \<^verbatim>\<open>None\<close>, and the loop of \<open>build\<close>
  records the requirement as failed.
\<close>

theorem failed_build_cleans_and_fails:
  assumes "snd (dispatch_build w b r tag) = Inr wheel_path"
    and "wheel_path = None \<or> (\<exists>p. wheel_path = Some p \<and> store_wheel w r output_dir p = None)"
  shows "build_one_inside_env w b r output_dir tag =
           (fst (dispatch_build w b r tag) @ fst (clean_one w b r), Inr None)
       \<and> fst (clean_one w b r) =
           [Log INFO ''Running setup.py clean for %s'' [name r],
            Subprocess (make_setuptools_clean_args w (setup_py_path r) (global_options b))
              (source_dir r)] @
           (if call_subprocess w (make_setuptools_clean_args w (setup_py_path r) (global_options b))
                 (source_dir r) = None
            then [Log ERROR ''Failed cleaning build dir for %s'' [name r]] else [])
       \<and> (ensure_dir w output_dir = None \<longrightarrow>
            snd (build_step w b should_unpack tag r output_dir) = Inr Failed)"
proof -
  obtain ev where d: "dispatch_build w b r tag = (ev, Inr wheel_path)"
    using assms(1) by (cases "dispatch_build w b r tag") simp
  have env: "build_one_inside_env w b r output_dir tag =
           (fst (dispatch_build w b r tag) @ fst (clean_one w b r), Inr None)"
    using assms(2) d by (auto simp add: build_one_inside_env_def and_then_def)
  have clean: "fst (clean_one w b r) =
           [Log INFO ''Running setup.py clean for %s'' [name r],
            Subprocess (make_setuptools_clean_args w (setup_py_path r) (global_options b))
              (source_dir r)] @
           (if call_subprocess w (make_setuptools_clean_args w (setup_py_path r) (global_options b))
                 (source_dir r) = None
            then [Log ERROR ''Failed cleaning build dir for %s'' [name r]] else [])"
    by (simp add: clean_one_def Let_def split: option.splits)
  have "snd (build_step w b should_unpack tag r output_dir) = Inr Failed"
    if "ensure_dir w output_dir = None"
    using that env by (simp add: build_step_def build_one_def snd_and_then ret_def)
  with env clean show ?thesis by blast
qed

theorem failed_build_cleans_and_fails_witness:
  "use_pep517 (example_pep517_req ''broken'')
   \<and> snd (dispatch_build example_world (example_builder None (Some ''/wheelhouse''))
         (example_pep517_req ''broken'') None) = Inr None
   \<and> build_one_inside_env example_world (example_builder None (Some ''/wheelhouse''))
        (example_pep517_req ''broken'') ''/tmp/ephem/ab'' None =
       ([Log DEBUG ''Destination directory: %s'' [''/tmp/wheel-broken''],
         Log ERROR ''Failed building wheel for %s'' [''broken''],
         Log INFO ''Running setup.py clean for %s'' [''broken''],
         Subprocess [''python'', ''/src/broken/setup.py'', ''clean'', ''--all'']
           (Some ''/src/broken''),
         Log ERROR ''Failed cleaning build dir for %s'' [''broken'']],
        Inr None)
   \<and> snd (build_step example_world (example_builder None (Some ''/wheelhouse'')) False None
         (example_pep517_req ''broken'') ''/tmp/ephem/ab'') = Inr Failed"
proof -
  let ?b = "example_builder None (Some ''/wheelhouse'')"
  let ?r = "example_pep517_req ''broken''"
  have p: "use_pep517 ?r"
    by (simp add: example_pep517_req_def)
  have none: "None = None \<or> (\<exists>p. None = Some p \<and> store_wheel example_world ?r ''/tmp/ephem/ab'' p = None)"
    by simp
  have ed: "ensure_dir example_world ''/tmp/ephem/ab'' = None"
    by (simp add: example_world_def)
  note main = failed_build_cleans_and_fails [OF example_pep517_dispatch none, of False]
  have ev: "fst (dispatch_build example_world ?b ?r None) =
      [Log DEBUG ''Destination directory: %s'' [''/tmp/wheel-broken''],
       Log ERROR ''Failed building wheel for %s'' [''broken'']]"
    by (simp add: build_one_defs example_defs)
  have cl: "fst (clean_one example_world ?b ?r) =
      [Log INFO ''Running setup.py clean for %s'' [''broken''],
       Subprocess [''python'', ''/src/broken/setup.py'', ''clean'', ''--all'']
         (Some ''/src/broken''),
       Log ERROR ''Failed cleaning build dir for %s'' [''broken'']]"
    by (simp add: build_one_defs example_defs)
  from main ev cl have env: "build_one_inside_env example_world ?b ?r ''/tmp/ephem/ab'' None =
       ([Log DEBUG ''Destination directory: %s'' [''/tmp/wheel-broken''],
         Log ERROR ''Failed building wheel for %s'' [''broken''],
         Log INFO ''Running setup.py clean for %s'' [''broken''],
         Subprocess [''python'', ''/src/broken/setup.py'', ''clean'', ''--all'']
           (Some ''/src/broken''),
         Log ERROR ''Failed cleaning build dir for %s'' [''broken'']],
        Inr None)"
    by simp
  from main ed have "snd (build_step example_world ?b False None ?r ''/tmp/ephem/ab'') = Inr Failed"
    by blast
  with p example_pep517_dispatch env show ?thesis by blast
qed

text \<open>
  The claim restricts the clean command to legacy builds. Here a requirement built
  with the PEP 517 backend fails to build, and its log holds the clean command.
\<close>

theorem clean_runs_for_pep517_counterexample:
  "use_pep517 (example_pep517_req ''broken'')
   \<and> snd (build_one_inside_env example_world (example_builder None (Some ''/wheelhouse''))
        (example_pep517_req ''broken'') ''/tmp/ephem/ab'' None) = Inr None
   \<and> Subprocess [''python'', ''/src/broken/setup.py'', ''clean'', ''--all''] (Some ''/src/broken'')
       \<in> set (fst (build_one_inside_env example_world (example_builder None (Some ''/wheelhouse''))
                      (example_pep517_req ''broken'') ''/tmp/ephem/ab'' None))"
  by (simp add: build_one_defs example_defs)

section \<open>The tag rewrite\<close>

lemma replace_python_tag_long:
  "3 \<le> length (split_on CHR ''-'' w) \<Longrightarrow>
   replace_python_tag w t =
     Inr (join ''-'' ((split_on CHR ''-'' w)[length (split_on CHR ''-'' w) - 3 := t]))"
  by (auto simp add: replace_python_tag_def list_setitem_def Let_def nat_diff_distrib' int_ops)

text \<open>
  Claim C8. A file name with at least three dash-separated fields (an artifact name has
  five) is the join of its fields, and the rewrite returns the join of the same fields
  with the third from last replaced by the override. When the override holds no dash,
  the fields of the result are the fields of the name with that one field replaced: no
  other field changes and none is added.
\<close>

theorem replace_python_tag_third_from_last:
  assumes "3 \<le> length (split_on CHR ''-'' w)"
  shows "replace_python_tag w t =
           Inr (join ''-'' ((split_on CHR ''-'' w)[length (split_on CHR ''-'' w) - 3 := t]))
       \<and> w = join ''-'' (split_on CHR ''-'' w)
       \<and> (CHR ''-'' \<notin> set t \<longrightarrow>
            (\<exists>r. replace_python_tag w t = Inr r \<and>
              split_on CHR ''-'' r =
                (split_on CHR ''-'' w)[length (split_on CHR ''-'' w) - 3 := t]))"
proof -
  let ?ps = "split_on CHR ''-'' w"
  let ?qs = "?ps[length ?ps - 3 := t]"
  have r: "replace_python_tag w t = Inr (join ''-'' ?qs)"
    using assms by (rule replace_python_tag_long)
  have w: "w = join ''-'' ?ps"
    using join_split_on [of "CHR ''-''" w] by simp
  have "split_on CHR ''-'' (join ''-'' ?qs) = ?qs" if "CHR ''-'' \<notin> set t"
  proof -
    have "\<forall>p \<in> set ?qs. CHR ''-'' \<notin> set p"
      using that split_on_fields_free [of _ "CHR ''-''" w]
      by (auto dest!: set_update_subset_insert [THEN subsetD])
    moreover have "?qs \<noteq> []"
      using assms by auto
    ultimately show ?thesis
      using split_on_join [of ?qs "CHR ''-''"] by simp
  qed
  with r w show ?thesis by simp
qed

theorem replace_python_tag_third_from_last_witness:
  "3 \<le> length (split_on CHR ''-'' ''pkg-1.0-cp39-cp39-linux_x86_64'')
   \<and> replace_python_tag ''pkg-1.0-cp39-cp39-linux_x86_64'' ''py3''
       = Inr ''pkg-1.0-py3-cp39-linux_x86_64''
   \<and> split_on CHR ''-'' ''pkg-1.0-py3-cp39-linux_x86_64''
       = [''pkg'', ''1.0'', ''py3'', ''cp39'', ''linux_x86_64'']"
proof -
  have h: "3 \<le> length (split_on CHR ''-'' ''pkg-1.0-cp39-cp39-linux_x86_64'')"
    by simp
  have "replace_python_tag ''pkg-1.0-cp39-cp39-linux_x86_64'' ''py3'' =
          Inr (join ''-'' ((split_on CHR ''-'' ''pkg-1.0-cp39-cp39-linux_x86_64'')
            [length (split_on CHR ''-'' ''pkg-1.0-cp39-cp39-linux_x86_64'') - 3 := ''py3'']))"
    by (rule replace_python_tag_third_from_last [OF h, THEN conjunct1])
  then have "replace_python_tag ''pkg-1.0-cp39-cp39-linux_x86_64'' ''py3''
               = Inr ''pkg-1.0-py3-cp39-linux_x86_64''"
    by simp
  with h show ?thesis by simp
qed

text \<open>
  Claim C10. On a name with fewer than three dash-separated fields the assignment
  \<^verbatim>\<open>parts[-3] = new_tag\<close> is out of range: the rewrite raises \<^verbatim>\<open>IndexError\<close> and
  returns no file name, whatever the override.
\<close>

theorem replace_python_tag_too_few_fields:
  assumes "length (split_on CHR ''-'' w) < 3"
  shows "replace_python_tag w t = Inl IndexError"
  using assms by (simp add: replace_python_tag_def list_setitem_def Let_def)

theorem replace_python_tag_too_few_fields_witness:
  "length (split_on CHR ''-'' ''pkg-1.0'') < 3
   \<and> replace_python_tag ''pkg-1.0'' ''py3'' = Inl IndexError"
proof -
  have h: "length (split_on CHR ''-'' ''pkg-1.0'') < 3"
    by simp
  from h replace_python_tag_too_few_fields [OF h, of "''py3''"] show ?thesis
    by (rule conjI)
qed

end
